theory Spec2Isabelle
  imports Main "HOL-Library.Char_ord" "HOL-Library.List_Lexorder"
begin

section \<open>Errors raised by the resolvers\<close>

text \<open>
  A \<open>TalawaGraphQLError\<close> carries \<open>extensions\<close> (a machine readable code, and for the
  argument related codes a list of issues) and a human readable message.  Every
  \<open>throw\<close> of the source is an \<open>Inl\<close> of the model.
\<close>

record issue =
  argumentPath :: "string list"
  issue_message :: "string option"

datatype extensions =
    unauthenticated
  | invalid_arguments "issue list"
  | arguments_associated_resources_not_found "issue list"
  | forbidden_action_on_arguments_associated_resources "issue list"
  | unauthorized_action_on_arguments_associated_resources "issue list"
  | unexpected

record TalawaGraphQLError =
  extensions :: extensions
  message :: string

text \<open>An issue as the validation library reports it: a path and a message.\<close>

record zod_issue =
  path :: "string list"
  zod_message :: string

text \<open>\<open>error.issues.map((issue) => ({argumentPath: issue.path, message: issue.message}))\<close>\<close>

definition map_issues :: "zod_issue list \<Rightarrow> issue list" where
  "map_issues issues =
     map (\<lambda>i. \<lparr>argumentPath = path i, issue_message = Some (zod_message i)\<rparr>) issues"

section \<open>Tables\<close>

record user_row =
  user_id :: string
  user_role :: string

record membership_row =
  membership_memberId :: string
  membership_organizationId :: string
  membership_role :: string

text \<open>
  A row of \<open>fundsTable\<close>.  The resolver names the columns \<open>id\<close>, \<open>isTaxDeductible\<close>,
  \<open>name\<close>, \<open>organizationId\<close> and \<open>updaterId\<close>; every other column of the table is the
  extension part of the record.
\<close>

record fund_row =
  fund_id :: string
  fund_isTaxDeductible :: bool
  fund_name :: string
  fund_organizationId :: string
  fund_updaterId :: "string option"

text \<open>
  A row of \<open>commentVotesTable\<close>, with the columns the \<open>upVoters\<close> resolver names.
  \<open>createdAt\<close> is a timestamp in milliseconds since the epoch, \<open>creatorId\<close> is nullable.
\<close>

record vote_row =
  vote_commentId :: string
  vote_createdAt :: int
  vote_creatorId :: "string option"
  vote_type :: string

record 'f drizzleClient =
  usersTable :: "user_row list"
  organizationMembershipsTable :: "membership_row list"
  fundsTable :: "'f fund_row_scheme list"
  commentVotesTable :: "vote_row list"

datatype currentClient = Unauthenticated | Authenticated string

fun isAuthenticated :: "currentClient \<Rightarrow> bool" where
  "isAuthenticated Unauthenticated = False"
| "isAuthenticated (Authenticated _) = True"

record 'f graphql_ctx =
  currentClient :: currentClient
  drizzleClient :: "'f drizzleClient"

text \<open>The parsed \<open>input\<close> of the mutation: \<open>None\<close> is JavaScript's \<open>undefined\<close>.\<close>

record MutationUpdateFundInput =
  input_id :: string
  input_isTaxDeductible :: "bool option"
  input_name :: "string option"

section \<open>The \<open>updateFund\<close> mutation\<close>

text \<open>
  What \<open>fundsTable.findFirst\<close> returns for the target fund: its \<open>organizationId\<close> and the
  roles of the caller's memberships in that organization
  (\<open>organization.organizationMembershipsWhereOrganization\<close>, filtered by \<open>memberId\<close>).
  The \<open>organization\<close> relation is never null: \<open>organizationId\<close> is a non-null foreign key.
\<close>

record existingFund =
  organizationId :: string
  organizationMembershipsWhereOrganization :: "membership_row list"

definition find_existingFund ::
  "'f drizzleClient \<Rightarrow> string \<Rightarrow> string \<Rightarrow> existingFund option" where
  "find_existingFund db currentUserId fid =
     (case find (\<lambda>f. fund_id f = fid) (fundsTable db) of
        None \<Rightarrow> None
      | Some f \<Rightarrow> Some \<lparr>
          organizationId = fund_organizationId f,
          organizationMembershipsWhereOrganization =
            filter (\<lambda>m. membership_organizationId m = fund_organizationId f
                        \<and> membership_memberId m = currentUserId)
              (organizationMembershipsTable db)\<rparr>)"

text \<open>
  \<open>existingFundWithName\<close>: the first fund with the given name in the given organization.
  The query has two conditions only, the name and the organization.
\<close>

definition existingFundWithName ::
  "'f drizzleClient \<Rightarrow> string \<Rightarrow> string \<Rightarrow> 'f fund_row_scheme option" where
  "existingFundWithName db name orgId =
     find (\<lambda>f. fund_name f = name \<and> fund_organizationId f = orgId) (fundsTable db)"

definition unauthenticated_error :: TalawaGraphQLError where
  "unauthenticated_error =
     \<lparr>extensions = unauthenticated,
      message = ''Only authenticated users can perform this action.''\<rparr>"

definition invalid_arguments_error :: "zod_issue list \<Rightarrow> TalawaGraphQLError" where
  "invalid_arguments_error issues =
     \<lparr>extensions = invalid_arguments (map_issues issues),
      message = ''Invalid arguments provided.''\<rparr>"

definition not_found_error :: "string list \<Rightarrow> TalawaGraphQLError" where
  "not_found_error p =
     \<lparr>extensions = arguments_associated_resources_not_found
        [\<lparr>argumentPath = p, issue_message = None\<rparr>],
      message = ''No associated resources found for the provided arguments.''\<rparr>"

definition forbidden_name_error :: TalawaGraphQLError where
  "forbidden_name_error =
     \<lparr>extensions = forbidden_action_on_arguments_associated_resources
        [\<lparr>argumentPath = [''input'', ''name''],
          issue_message = Some ''This name is not available.''\<rparr>],
      message = ''This action is forbidden on the resources associated to the provided arguments.''\<rparr>"

definition unauthorized_error :: TalawaGraphQLError where
  "unauthorized_error =
     \<lparr>extensions = unauthorized_action_on_arguments_associated_resources
        [\<lparr>argumentPath = [''input'', ''id''], issue_message = None\<rparr>],
      message = ''You are not authorized to perform this action on the resources associated to the provided arguments.''\<rparr>"

definition unexpected_error :: TalawaGraphQLError where
  "unexpected_error =
     \<lparr>extensions = unexpected, message = ''Something went wrong. Please try again.''\<rparr>"

text \<open>
  The steps of the resolver up to and including the name check (authentication, argument
  validation, the two lookups, the uniqueness query).  \<open>safeParse\<close> is
  \<open>mutationUpdateFundArgumentsSchema.safeParse\<close>, whose input schema the resolver imports.
  On success the step yields the caller's id, the parsed input, the caller's row and the
  target fund as looked up.
\<close>

definition updateFund_checks ::
  "('a \<Rightarrow> zod_issue list + MutationUpdateFundInput) \<Rightarrow> 'a \<Rightarrow> 'f graphql_ctx
     \<Rightarrow> TalawaGraphQLError + (string \<times> MutationUpdateFundInput \<times> user_row \<times> existingFund)" where
  "updateFund_checks safeParse args ctx =
     (case currentClient ctx of
        Unauthenticated \<Rightarrow> Inl unauthenticated_error
      | Authenticated currentUserId \<Rightarrow>
         (case safeParse args of
            Inl issues \<Rightarrow> Inl (invalid_arguments_error issues)
          | Inr input \<Rightarrow>
             (case find (\<lambda>u. user_id u = currentUserId) (usersTable (drizzleClient ctx)) of
                None \<Rightarrow> Inl unauthenticated_error
              | Some currentUser \<Rightarrow>
                 (case find_existingFund (drizzleClient ctx) currentUserId (input_id input) of
                    None \<Rightarrow> Inl (not_found_error [''input'', ''id''])
                  | Some ef \<Rightarrow>
                     (case input_name input of
                        None \<Rightarrow> Inr (currentUserId, input, currentUser, ef)
                      | Some name \<Rightarrow>
                         (case existingFundWithName (drizzleClient ctx) name (organizationId ef) of
                            Some _ \<Rightarrow> Inl forbidden_name_error
                          | None \<Rightarrow> Inr (currentUserId, input, currentUser, ef)))))))"

text \<open>
  The authorization test: \<open>currentUserOrganizationMembership\<close> is element \<open>0\<close> of the
  memberships found, \<open>undefined\<close> when there is none.
\<close>

definition is_unauthorized :: "user_row \<Rightarrow> existingFund \<Rightarrow> bool" where
  "is_unauthorized currentUser ef =
     (user_role currentUser \<noteq> ''administrator'' \<and>
      (case organizationMembershipsWhereOrganization ef of
         [] \<Rightarrow> True
       | m # _ \<Rightarrow> membership_role m \<noteq> ''administrator''))"

text \<open>
  \<open>.set({isTaxDeductible, name, updaterId})\<close>: a key whose value is \<open>undefined\<close> is left
  out of the update, \<open>updaterId\<close> is always written.
\<close>

definition update_set ::
  "MutationUpdateFundInput \<Rightarrow> string \<Rightarrow> 'f fund_row_scheme \<Rightarrow> 'f fund_row_scheme" where
  "update_set input currentUserId f =
     f\<lparr>fund_isTaxDeductible :=
         (case input_isTaxDeductible input of None \<Rightarrow> fund_isTaxDeductible f | Some b \<Rightarrow> b),
       fund_name := (case input_name input of None \<Rightarrow> fund_name f | Some n \<Rightarrow> n),
       fund_updaterId := Some currentUserId\<rparr>"

text \<open>
  \<open>update(fundsTable).set(...).where(eq(fundsTable.id, id)).returning()\<close>: the rows with
  that id are rewritten in place, and the rewritten rows are returned.
\<close>

definition update_funds ::
  "MutationUpdateFundInput \<Rightarrow> string \<Rightarrow> 'f fund_row_scheme list \<Rightarrow> 'f fund_row_scheme list" where
  "update_funds input currentUserId rows =
     map (\<lambda>f. if fund_id f = input_id input then update_set input currentUserId f else f) rows"

definition returning ::
  "MutationUpdateFundInput \<Rightarrow> string \<Rightarrow> 'f fund_row_scheme list \<Rightarrow> 'f fund_row_scheme list" where
  "returning input currentUserId rows =
     map (update_set input currentUserId) (filter (\<lambda>f. fund_id f = input_id input) rows)"

text \<open>The resolver: its result, and the database it leaves.\<close>

definition updateFund_resolve ::
  "('a \<Rightarrow> zod_issue list + MutationUpdateFundInput) \<Rightarrow> 'a \<Rightarrow> 'f graphql_ctx
     \<Rightarrow> (TalawaGraphQLError + 'f fund_row_scheme) \<times> 'f drizzleClient" where
  "updateFund_resolve safeParse args ctx =
     (let db = drizzleClient ctx in
      case updateFund_checks safeParse args ctx of
        Inl e \<Rightarrow> (Inl e, db)
      | Inr (currentUserId, input, currentUser, ef) \<Rightarrow>
          if is_unauthorized currentUser ef then (Inl unauthorized_error, db)
          else
            (let db' = db\<lparr>fundsTable := update_funds input currentUserId (fundsTable db)\<rparr> in
             case returning input currentUserId (fundsTable db) of
               [] \<Rightarrow> (Inl unexpected_error, db')
             | updatedFund # _ \<Rightarrow> (Inr updatedFund, db')))"

section \<open>\<open>Buffer\<close>: UTF-8 text and base64url\<close>

text \<open>
  A JavaScript string is modelled by the bytes of its UTF-8 encoding, so
  \<open>Buffer.from(text)\<close> is \<open>bytes_of\<close> and \<open>buffer.toString("utf-8")\<close> is \<open>string_of\<close>.
  \<open>buffer.toString("base64url")\<close> is \<open>base64url_encode\<close>: the URL-safe alphabet, no padding.
  \<open>Buffer.from(text, "base64url")\<close> is \<open>base64url_decode\<close>; it never throws: characters
  outside both base64 alphabets are skipped, decoding stops at the first \<open>=\<close>, and a
  trailing single sextet is dropped.
\<close>

definition bytes_of :: "string \<Rightarrow> nat list" where
  "bytes_of s = map of_char s"

definition string_of :: "nat list \<Rightarrow> string" where
  "string_of bs = map char_of bs"

definition base64url_char :: "nat \<Rightarrow> char" where
  "base64url_char n =
     (if n < 26 then char_of (65 + n)
      else if n < 52 then char_of (71 + n)
      else if n < 62 then char_of (n - 4)
      else if n = 62 then CHR ''-'' else CHR ''_'')"

fun base64url_encode :: "nat list \<Rightarrow> string" where
  "base64url_encode (a # b # c # bs) =
     base64url_char (a div 4) # base64url_char ((a mod 4) * 16 + b div 16) #
     base64url_char ((b mod 16) * 4 + c div 64) # base64url_char (c mod 64) #
     base64url_encode bs"
| "base64url_encode [a, b] =
     [base64url_char (a div 4), base64url_char ((a mod 4) * 16 + b div 16),
      base64url_char ((b mod 16) * 4)]"
| "base64url_encode [a] = [base64url_char (a div 4), base64url_char ((a mod 4) * 16)]"
| "base64url_encode [] = []"

definition unbase64 :: "char \<Rightarrow> nat option" where
  "unbase64 c =
     (let n = of_char c :: nat in
      if 65 \<le> n \<and> n \<le> 90 then Some (n - 65)
      else if 97 \<le> n \<and> n \<le> 122 then Some (n - 71)
      else if 48 \<le> n \<and> n \<le> 57 then Some (n + 4)
      else if c = CHR ''-'' \<or> c = CHR ''+'' then Some 62
      else if c = CHR ''_'' \<or> c = CHR ''/'' then Some 63
      else None)"

fun base64_decode_groups :: "nat list \<Rightarrow> nat list" where
  "base64_decode_groups (a # b # c # d # ss) =
     (a * 4 + b div 16) # ((b mod 16) * 16 + c div 4) # ((c mod 4) * 64 + d) #
     base64_decode_groups ss"
| "base64_decode_groups [a, b, c] = [a * 4 + b div 16, (b mod 16) * 16 + c div 4]"
| "base64_decode_groups [a, b] = [a * 4 + b div 16]"
| "base64_decode_groups [a] = []"
| "base64_decode_groups [] = []"

definition base64url_decode :: "string \<Rightarrow> nat list" where
  "base64url_decode s =
     base64_decode_groups (List.map_filter unbase64 (takeWhile (\<lambda>c. c \<noteq> CHR ''='') s))"

section \<open>Date.toISOString\<close>

definition digit_char :: "int \<Rightarrow> char" where
  "digit_char n = char_of (48 + n mod 10)"

definition pad2 :: "int \<Rightarrow> string" where
  "pad2 n = [digit_char (n div 10), digit_char n]"

definition pad3 :: "int \<Rightarrow> string" where
  "pad3 n = [digit_char (n div 100), digit_char (n div 10), digit_char n]"

definition pad4 :: "int \<Rightarrow> string" where
  "pad4 n = [digit_char (n div 1000), digit_char (n div 100), digit_char (n div 10), digit_char n]"

definition pad6 :: "int \<Rightarrow> string" where
  "pad6 n = [digit_char (n div 100000), digit_char (n div 10000)] @ pad4 n"

text \<open>The civil date (year, month, day) of a day number counted from 1970-01-01.\<close>

definition civil_from_days :: "int \<Rightarrow> int \<times> int \<times> int" where
  "civil_from_days z0 =
     (let z = z0 + 719468;
          era = z div 146097;
          doe = z - era * 146097;
          yoe = (doe - doe div 1460 + doe div 36524 - doe div 146096) div 365;
          doy = doe - (365 * yoe + yoe div 4 - yoe div 100);
          mp = (5 * doy + 2) div 153;
          d = doy - (153 * mp + 2) div 5 + 1;
          m = (if mp < 10 then mp + 3 else mp - 9);
          y = yoe + era * 400 + (if m \<le> 2 then 1 else 0)
      in (y, m, d))"

definition year_string :: "int \<Rightarrow> string" where
  "year_string y =
     (if 0 \<le> y \<and> y \<le> 9999 then pad4 y
      else if y < 0 then CHR ''-'' # pad6 (- y)
      else CHR ''+'' # pad6 y)"

text \<open>
  \<open>date.toISOString()\<close> for a timestamp in milliseconds since the epoch:
  \<open>YYYY-MM-DDTHH:mm:ss.sssZ\<close>, with a sign and six digits for a year outside 0 to 9999.
\<close>

definition toISOString :: "int \<Rightarrow> string" where
  "toISOString t =
     (let days = t div 86400000;
          ms = t mod 86400000;
          (y, m, d) = civil_from_days days
      in year_string y @ ''-'' @ pad2 m @ ''-'' @ pad2 d @ ''T'' @
         pad2 (ms div 3600000) @ '':'' @ pad2 (ms div 60000 mod 60) @ '':'' @
         pad2 (ms div 1000 mod 60) @ ''.'' @ pad3 (ms mod 1000) @ ''Z'')"

section \<open>JSON\<close>

text \<open>
  A JavaScript value as \<open>JSON.stringify\<close> reads it and \<open>JSON.parse\<close> builds it.  A
  number is kept as its literal.  \<open>JSON.stringify\<close> writes a \<open>Date\<close> as the string
  \<open>toISOString\<close> gives; \<open>JSON.parse\<close> never builds a \<open>Date\<close>.  \<open>JSON_parse\<close> is \<open>None\<close>
  where \<open>JSON.parse\<close> throws.  An escape \<open>\u....\<close> is decoded to the UTF-8 bytes of its
  code unit.  The parser spends one unit of fuel for each value, array element and object
  member it reads, so the length of the text is fuel enough.
\<close>

datatype js_value =
    Null
  | Bool bool
  | Number string
  | String string
  | Date int
  | Array "js_value list"
  | Object "(string \<times> js_value) list"

definition hex_char :: "nat \<Rightarrow> char" where
  "hex_char n = (if n mod 16 < 10 then char_of (48 + n mod 16) else char_of (87 + n mod 16))"

fun quote_char :: "char \<Rightarrow> string" where
  "quote_char c =
     (if c = CHR 0x22 then [CHR 0x5C, CHR 0x22]
      else if c = CHR 0x5C then [CHR 0x5C, CHR 0x5C]
      else if c = CHR 0x08 then [CHR 0x5C, CHR ''b'']
      else if c = CHR 0x0C then [CHR 0x5C, CHR ''f'']
      else if c = CHR 0x0A then [CHR 0x5C, CHR ''n'']
      else if c = CHR 0x0D then [CHR 0x5C, CHR ''r'']
      else if c = CHR 0x09 then [CHR 0x5C, CHR ''t'']
      else if (of_char c :: nat) < 32
        then [CHR 0x5C, CHR ''u'', CHR ''0'', CHR ''0'', hex_char (of_char c div 16), hex_char (of_char c)]
      else [c])"

definition quote :: "string \<Rightarrow> string" where
  "quote s = CHR 0x22 # concat (map quote_char s) @ [CHR 0x22]"

fun join :: "string list \<Rightarrow> string" where
  "join [] = []"
| "join [x] = x"
| "join (x # y # ys) = x @ '','' @ join (y # ys)"

fun JSON_stringify :: "js_value \<Rightarrow> string" where
  "JSON_stringify Null = ''null''"
| "JSON_stringify (Bool b) = (if b then ''true'' else ''false'')"
| "JSON_stringify (Number n) = n"
| "JSON_stringify (String s) = quote s"
| "JSON_stringify (Date t) = quote (toISOString t)"
| "JSON_stringify (Array vs) = ''['' @ join (map JSON_stringify vs) @ '']''"
| "JSON_stringify (Object kvs) =
     ''{'' @ join (map (\<lambda>(k, v). quote k @ '':'' @ JSON_stringify v) kvs) @ ''}''"

definition is_ws :: "char \<Rightarrow> bool" where
  "is_ws c \<longleftrightarrow> c = CHR '' '' \<or> c = CHR 0x09 \<or> c = CHR 0x0A \<or> c = CHR 0x0D"

definition skip_ws :: "string \<Rightarrow> string" where
  "skip_ws s = dropWhile is_ws s"

definition is_digit :: "char \<Rightarrow> bool" where
  "is_digit c \<longleftrightarrow> 48 \<le> (of_char c :: nat) \<and> (of_char c :: nat) \<le> 57"

definition hex_val :: "char \<Rightarrow> nat option" where
  "hex_val c =
     (let n = of_char c :: nat in
      if 48 \<le> n \<and> n \<le> 57 then Some (n - 48)
      else if 97 \<le> n \<and> n \<le> 102 then Some (n - 87)
      else if 65 \<le> n \<and> n \<le> 70 then Some (n - 55)
      else None)"

definition code_unit_chars :: "nat \<Rightarrow> string" where
  "code_unit_chars n =
     (if n < 128 then [char_of n]
      else if n < 2048 then [char_of (192 + n div 64), char_of (128 + n mod 64)]
      else [char_of (224 + n div 4096), char_of (128 + n div 64 mod 64), char_of (128 + n mod 64)])"

definition unescape :: "char \<Rightarrow> char option" where
  "unescape e =
     (if e = CHR 0x22 then Some (CHR 0x22)
      else if e = CHR 0x5C then Some (CHR 0x5C)
      else if e = CHR ''/'' then Some (CHR ''/'')
      else if e = CHR ''b'' then Some (CHR 0x08)
      else if e = CHR ''f'' then Some (CHR 0x0C)
      else if e = CHR ''n'' then Some (CHR 0x0A)
      else if e = CHR ''r'' then Some (CHR 0x0D)
      else if e = CHR ''t'' then Some (CHR 0x09)
      else None)"

fun parse_string :: "string \<Rightarrow> (string \<times> string) option" where
  "parse_string [] = None"
| "parse_string (c # cs) =
     (if c = CHR 0x22 then Some ([], cs)
      else if c = CHR 0x5C then
        (case cs of
           [] \<Rightarrow> None
         | e # rest \<Rightarrow>
            if e = CHR ''u'' then
              (case rest of
                 h1 # h2 # h3 # h4 # rest' \<Rightarrow>
                   (case (hex_val h1, hex_val h2, hex_val h3, hex_val h4) of
                      (Some a, Some b, Some c', Some d) \<Rightarrow>
                        map_option (apfst ((@) (code_unit_chars (((a * 16 + b) * 16 + c') * 16 + d))))
                          (parse_string rest')
                    | _ \<Rightarrow> None)
               | _ \<Rightarrow> None)
            else
              (case unescape e of
                 None \<Rightarrow> None
               | Some x \<Rightarrow> map_option (apfst ((#) x)) (parse_string rest)))
      else if (of_char c :: nat) < 32 then None
      else map_option (apfst ((#) c)) (parse_string cs))"

definition digits1 :: "string \<Rightarrow> (string \<times> string) option" where
  "digits1 s = (case takeWhile is_digit s of [] \<Rightarrow> None | ds \<Rightarrow> Some (ds, dropWhile is_digit s))"

definition parse_int_part :: "string \<Rightarrow> (string \<times> string) option" where
  "parse_int_part s =
     (case s of
        [] \<Rightarrow> None
      | c # cs \<Rightarrow> if c = CHR ''0'' then Some (''0'', cs) else digits1 s)"

definition parse_frac :: "string \<Rightarrow> (string \<times> string) option" where
  "parse_frac s =
     (case s of
        [] \<Rightarrow> Some ([], s)
      | c # cs \<Rightarrow>
         if c = CHR ''.'' then map_option (apfst ((#) c)) (digits1 cs) else Some ([], s))"

definition parse_exp :: "string \<Rightarrow> (string \<times> string) option" where
  "parse_exp s =
     (case s of
        [] \<Rightarrow> Some ([], s)
      | c # cs \<Rightarrow>
         if c = CHR ''e'' \<or> c = CHR ''E'' then
           (case cs of
              [] \<Rightarrow> None
            | g # gs \<Rightarrow>
               if g = CHR ''+'' \<or> g = CHR ''-''
               then map_option (apfst (\<lambda>ds. c # g # ds)) (digits1 gs)
               else map_option (apfst ((#) c)) (digits1 cs))
         else Some ([], s))"

definition parse_number :: "string \<Rightarrow> (string \<times> string) option" where
  "parse_number s =
     (let (sign, s1) = (case s of [] \<Rightarrow> ([], s) | c # cs \<Rightarrow> if c = CHR ''-'' then ([c], cs) else ([], s))
      in case parse_int_part s1 of
           None \<Rightarrow> None
         | Some (i, s2) \<Rightarrow>
            (case parse_frac s2 of
               None \<Rightarrow> None
             | Some (f, s3) \<Rightarrow>
                (case parse_exp s3 of
                   None \<Rightarrow> None
                 | Some (e, s4) \<Rightarrow> Some (sign @ i @ f @ e, s4))))"

definition parse_literal :: "string \<Rightarrow> (js_value \<times> string) option" where
  "parse_literal s =
     (if take 4 s = ''true'' then Some (Bool True, drop 4 s)
      else if take 5 s = ''false'' then Some (Bool False, drop 5 s)
      else if take 4 s = ''null'' then Some (Null, drop 4 s)
      else map_option (apfst Number) (parse_number s))"

fun parse_value :: "nat \<Rightarrow> string \<Rightarrow> (js_value \<times> string) option"
  and parse_elements :: "nat \<Rightarrow> string \<Rightarrow> (js_value list \<times> string) option"
  and parse_members :: "nat \<Rightarrow> string \<Rightarrow> ((string \<times> js_value) list \<times> string) option"
where
  "parse_value 0 s = None"
| "parse_value (Suc n) s =
     (case skip_ws s of
        [] \<Rightarrow> None
      | c # cs \<Rightarrow>
         if c = CHR ''{'' then
           (case skip_ws cs of
              [] \<Rightarrow> None
            | d # ds \<Rightarrow>
               if d = CHR ''}'' then Some (Object [], ds)
               else map_option (apfst Object) (parse_members n cs))
         else if c = CHR ''['' then
           (case skip_ws cs of
              [] \<Rightarrow> None
            | d # ds \<Rightarrow>
               if d = CHR '']'' then Some (Array [], ds)
               else map_option (apfst Array) (parse_elements n cs))
         else if c = CHR 0x22 then map_option (apfst String) (parse_string cs)
         else parse_literal (c # cs))"
| "parse_elements 0 s = None"
| "parse_elements (Suc n) s =
     (case parse_value n s of
        None \<Rightarrow> None
      | Some (v, rest) \<Rightarrow>
         (case skip_ws rest of
            [] \<Rightarrow> None
          | c # cs \<Rightarrow>
             if c = CHR '','' then map_option (apfst ((#) v)) (parse_elements n cs)
             else if c = CHR '']'' then Some ([v], cs)
             else None))"
| "parse_members 0 s = None"
| "parse_members (Suc n) s =
     (case skip_ws s of
        [] \<Rightarrow> None
      | q # ks \<Rightarrow>
         if q = CHR 0x22 then
           (case parse_string ks of
              None \<Rightarrow> None
            | Some (k, rest) \<Rightarrow>
               (case skip_ws rest of
                  [] \<Rightarrow> None
                | c # cs \<Rightarrow>
                   if c = CHR '':'' then
                     (case parse_value n cs of
                        None \<Rightarrow> None
                      | Some (v, rest') \<Rightarrow>
                         (case skip_ws rest' of
                            [] \<Rightarrow> None
                          | d # ds \<Rightarrow>
                             if d = CHR '','' then map_option (apfst ((#) (k, v))) (parse_members n ds)
                             else if d = CHR ''}'' then Some ([(k, v)], ds)
                             else None))
                   else None))
         else None)"

definition JSON_parse :: "string \<Rightarrow> js_value option" where
  "JSON_parse s =
     (case parse_value (Suc (length s)) s of
        None \<Rightarrow> None
      | Some (v, rest) \<Rightarrow> if skip_ws rest = [] then Some v else None)"

section \<open>The cursor of the \<open>upVoters\<close> connection\<close>

text \<open>
  \<open>cursorSchema\<close> is an object schema with the two fields \<open>createdAt\<close> and \<open>creatorId\<close>.
  Their validators are taken from \<open>commentVotesTableInsertSchema\<close>, which the resolver
  imports; here they are parameters.  A validator reads the value found under its key
  (\<open>None\<close> when the key is missing) and yields the validated value, or \<open>None\<close> when it
  rejects.  A key that occurs twice in the JSON text has its last value.
\<close>

type_synonym 'a field_schema = "js_value option \<Rightarrow> 'a option"

record cursor =
  cursor_createdAt :: int
  cursor_creatorId :: string

definition object_get :: "(string \<times> js_value) list \<Rightarrow> string \<Rightarrow> js_value option" where
  "object_get kvs k = map_of (rev kvs) k"

definition cursorSchema_parse ::
  "int field_schema \<Rightarrow> string field_schema \<Rightarrow> js_value \<Rightarrow> cursor option" where
  "cursorSchema_parse createdAt_schema creatorId_schema v =
     (case v of
        Object kvs \<Rightarrow>
          (case createdAt_schema (object_get kvs ''createdAt'') of
             None \<Rightarrow> None
           | Some t \<Rightarrow>
              (case creatorId_schema (object_get kvs ''creatorId'') of
                 None \<Rightarrow> None
               | Some i \<Rightarrow> Some \<lparr>cursor_createdAt = t, cursor_creatorId = i\<rparr>))
      | _ \<Rightarrow> None)"

text \<open>
  \<open>cursorSchema.parse(JSON.parse(Buffer.from(arg.cursor, "base64url").toString("utf-8")))\<close>;
  \<open>None\<close> when \<open>JSON.parse\<close> or \<open>cursorSchema.parse\<close> throws.
\<close>

definition decode_cursor ::
  "int field_schema \<Rightarrow> string field_schema \<Rightarrow> string \<Rightarrow> cursor option" where
  "decode_cursor createdAt_schema creatorId_schema c =
     (case JSON_parse (string_of (base64url_decode c)) of
        None \<Rightarrow> None
      | Some v \<Rightarrow> cursorSchema_parse createdAt_schema creatorId_schema v)"

text \<open>
  The arguments after \<open>transformDefaultGraphQLConnectionArguments\<close>, and after the cursor
  transform of \<open>upVotersArgumentsSchema\<close>.
\<close>

record connection_arguments =
  arg_cursor :: "string option"
  arg_isInversed :: bool
  arg_limit :: nat

record parsedArgs =
  cursor :: "cursor option"
  isInversed :: bool
  limit :: nat

text \<open>
  What the \<open>findMany\<close> query returns for a vote: the two selected columns and the
  \<open>creator\<close> relation.  After the filter on \<open>creator !== null\<close> a vote is paired with its
  creator.
\<close>

record commentVote =
  createdAt :: int
  creatorId :: "string option"
  creator :: "user_row option"

type_synonym rawNode = "commentVote \<times> user_row"

text \<open>
  What the resolver imports and the model takes as parameters: the connection argument
  schema with its transform (\<open>defaultGraphQLConnectionArgumentsSchema\<close>,
  \<open>transformDefaultGraphQLConnectionArguments\<close>), which either reports issues or yields the
  normalized arguments; the two validators of the cursor schema; and
  \<open>transformToDefaultGraphQLConnection\<close>, applied to \<open>createCursor\<close>, \<open>createNode\<close>,
  \<open>parsedArgs\<close> and \<open>rawNodes\<close>.
\<close>

record ('a, 'c) upVoters_env =
  connectionArguments :: "'a \<Rightarrow> zod_issue list + connection_arguments"
  createdAt_schema :: "int field_schema"
  creatorId_schema :: "string field_schema"
  transformToDefaultGraphQLConnection ::
    "(rawNode \<Rightarrow> string) \<Rightarrow> (rawNode \<Rightarrow> user_row) \<Rightarrow> parsedArgs \<Rightarrow> rawNode list \<Rightarrow> 'c"

text \<open>
  \<open>upVotersArgumentsSchema.safeParse\<close>.  The cursor transform runs on the output of the
  first transform; a cursor that does not decode adds the issue \<open>Not a valid cursor.\<close>
  under \<open>before\<close> or \<open>after\<close>, and the parse fails.
\<close>

definition upVotersArgumentsSchema ::
  "('a, 'c) upVoters_env \<Rightarrow> 'a \<Rightarrow> zod_issue list + parsedArgs" where
  "upVotersArgumentsSchema env args =
     (case connectionArguments env args of
        Inl issues \<Rightarrow> Inl issues
      | Inr arg \<Rightarrow>
         (case arg_cursor arg of
            None \<Rightarrow> Inr \<lparr>cursor = None, isInversed = arg_isInversed arg, limit = arg_limit arg\<rparr>
          | Some c \<Rightarrow>
             (case decode_cursor (createdAt_schema env) (creatorId_schema env) c of
                None \<Rightarrow>
                  Inl [\<lparr>path = [if arg_isInversed arg then ''before'' else ''after''],
                        zod_message = ''Not a valid cursor.''\<rparr>]
              | Some cur \<Rightarrow>
                  Inr \<lparr>cursor = Some cur, isInversed = arg_isInversed arg,
                       limit = arg_limit arg\<rparr>)))"

section \<open>Queries on \<open>commentVotesTable\<close>\<close>

text \<open>
  The filter is built as an SQL expression and evaluated by the database.  A comparison
  with \<open>NULL\<close> is unknown, \<open>AND\<close> and \<open>OR\<close> are three-valued, and a row is selected when
  its filter is true.  \<open>Exists w\<close> is \<open>exists(select().from(commentVotesTable).where(w))\<close>,
  a subquery that does not refer to the outer row.
\<close>

datatype column = col_createdAt | col_creatorId | col_commentId | col_type

datatype sql_value = SqlNull | SqlTimestamp int | SqlText string

datatype SQL =
    Eq column sql_value
  | Ne column sql_value
  | Gt column sql_value
  | Lt column sql_value
  | And "SQL list"
  | Or "SQL list"
  | Exists SQL

datatype tv = TT | FF | UU

fun column_value :: "vote_row \<Rightarrow> column \<Rightarrow> sql_value" where
  "column_value r col_createdAt = SqlTimestamp (vote_createdAt r)"
| "column_value r col_creatorId =
     (case vote_creatorId r of None \<Rightarrow> SqlNull | Some i \<Rightarrow> SqlText i)"
| "column_value r col_commentId = SqlText (vote_commentId r)"
| "column_value r col_type = SqlText (vote_type r)"

definition tv_of :: "bool \<Rightarrow> tv" where
  "tv_of b = (if b then TT else FF)"

fun compare3 ::
  "(int \<Rightarrow> int \<Rightarrow> bool) \<Rightarrow> (string \<Rightarrow> string \<Rightarrow> bool) \<Rightarrow> sql_value \<Rightarrow> sql_value \<Rightarrow> tv" where
  "compare3 p q (SqlTimestamp a) (SqlTimestamp b) = tv_of (p a b)"
| "compare3 p q (SqlText a) (SqlText b) = tv_of (q a b)"
| "compare3 p q _ _ = UU"

fun and3 :: "tv \<Rightarrow> tv \<Rightarrow> tv" where
  "and3 FF _ = FF"
| "and3 _ FF = FF"
| "and3 TT TT = TT"
| "and3 _ _ = UU"

fun or3 :: "tv \<Rightarrow> tv \<Rightarrow> tv" where
  "or3 TT _ = TT"
| "or3 _ TT = TT"
| "or3 FF FF = FF"
| "or3 _ _ = UU"

fun eval_sql :: "vote_row list \<Rightarrow> SQL \<Rightarrow> vote_row \<Rightarrow> tv" where
  "eval_sql tbl (Eq c v) r = compare3 (=) (=) (column_value r c) v"
| "eval_sql tbl (Ne c v) r = compare3 (\<noteq>) (\<noteq>) (column_value r c) v"
| "eval_sql tbl (Gt c v) r = compare3 (\<lambda>a b. b < a) (\<lambda>a b. b < a) (column_value r c) v"
| "eval_sql tbl (Lt c v) r = compare3 (<) (<) (column_value r c) v"
| "eval_sql tbl (And ws) r = foldr and3 (map (\<lambda>w. eval_sql tbl w r) ws) TT"
| "eval_sql tbl (Or ws) r = foldr or3 (map (\<lambda>w. eval_sql tbl w r) ws) FF"
| "eval_sql tbl (Exists w) r = tv_of (list_ex (\<lambda>r'. eval_sql tbl w r' = TT) tbl)"

text \<open>
  \<open>ORDER BY\<close>: rows are compared column by column; \<open>NULL\<close> sorts as larger than every
  other value (last when ascending, first when descending).  Rows that the order does not
  separate keep their order in the table.
\<close>

datatype order_by = asc column | desc column

fun sql_less :: "sql_value \<Rightarrow> sql_value \<Rightarrow> bool" where
  "sql_less (SqlTimestamp a) (SqlTimestamp b) = (a < b)"
| "sql_less (SqlText a) (SqlText b) = (a < b)"
| "sql_less (SqlTimestamp _) (SqlText _) = True"
| "sql_less (SqlText _) (SqlTimestamp _) = False"
| "sql_less SqlNull _ = False"
| "sql_less _ SqlNull = True"

fun precedes :: "order_by list \<Rightarrow> vote_row \<Rightarrow> vote_row \<Rightarrow> bool" where
  "precedes [] a b = False"
| "precedes (asc c # os) a b =
     (sql_less (column_value a c) (column_value b c) \<or>
      (column_value a c = column_value b c \<and> precedes os a b))"
| "precedes (desc c # os) a b =
     (sql_less (column_value b c) (column_value a c) \<or>
      (column_value a c = column_value b c \<and> precedes os a b))"

fun insert_row :: "order_by list \<Rightarrow> vote_row \<Rightarrow> vote_row list \<Rightarrow> vote_row list" where
  "insert_row os x [] = [x]"
| "insert_row os x (y # ys) =
     (if precedes os y x then y # insert_row os x ys else x # y # ys)"

definition order_rows :: "order_by list \<Rightarrow> vote_row list \<Rightarrow> vote_row list" where
  "order_rows os rows = foldr (insert_row os) rows []"

text \<open>
  \<open>commentVotesTable.findMany({columns: {createdAt, creatorId}, limit, orderBy,
  with: {creator: true}, where})\<close>.
\<close>

definition with_creator :: "'f drizzleClient \<Rightarrow> vote_row \<Rightarrow> commentVote" where
  "with_creator db r =
     \<lparr>createdAt = vote_createdAt r,
      creatorId = vote_creatorId r,
      creator = (case vote_creatorId r of
                   None \<Rightarrow> None
                 | Some i \<Rightarrow> find (\<lambda>u. user_id u = i) (usersTable db))\<rparr>"

definition findMany ::
  "'f drizzleClient \<Rightarrow> nat \<Rightarrow> order_by list \<Rightarrow> SQL \<Rightarrow> commentVote list" where
  "findMany db lim orderBy wh =
     map (with_creator db)
       (take lim (order_rows orderBy
          (filter (\<lambda>r. eval_sql (commentVotesTable db) wh r = TT) (commentVotesTable db))))"

section \<open>The \<open>upVoters\<close> connection\<close>

definition upVoters_orderBy :: "bool \<Rightarrow> order_by list" where
  "upVoters_orderBy inversed =
     (if inversed then [asc col_createdAt, asc col_creatorId]
      else [desc col_createdAt, desc col_creatorId])"

definition upVoters_where :: "cursor option \<Rightarrow> bool \<Rightarrow> string \<Rightarrow> SQL" where
  "upVoters_where cur inversed parent_id =
     (if inversed then
        (case cur of
           Some c \<Rightarrow>
             And [Exists (And [Eq col_createdAt (SqlTimestamp (cursor_createdAt c)),
                               Eq col_creatorId (SqlText (cursor_creatorId c)),
                               Eq col_commentId (SqlText parent_id),
                               Eq col_type (SqlText ''up_vote'')]),
                  Eq col_commentId (SqlText parent_id),
                  Eq col_type (SqlText ''up_vote''),
                  Or [And [Eq col_createdAt (SqlTimestamp (cursor_createdAt c)),
                           Gt col_creatorId (SqlText (cursor_creatorId c))],
                      Gt col_createdAt (SqlTimestamp (cursor_createdAt c))]]
         | None \<Rightarrow>
             And [Ne col_creatorId SqlNull,
                  Eq col_commentId (SqlText parent_id),
                  Eq col_type (SqlText ''up_vote'')])
      else
        (case cur of
           Some c \<Rightarrow>
             And [Exists (And [Eq col_createdAt (SqlTimestamp (cursor_createdAt c)),
                               Eq col_creatorId (SqlText (cursor_creatorId c)),
                               Eq col_commentId (SqlText parent_id),
                               Eq col_type (SqlText ''up_vote'')]),
                  Eq col_commentId (SqlText parent_id),
                  Eq col_type (SqlText ''up_vote''),
                  Or [And [Eq col_createdAt (SqlTimestamp (cursor_createdAt c)),
                           Lt col_creatorId (SqlText (cursor_creatorId c))],
                      Lt col_createdAt (SqlTimestamp (cursor_createdAt c))]]
         | None \<Rightarrow>
             And [Ne col_creatorId SqlNull,
                  Eq col_commentId (SqlText parent_id),
                  Eq col_type (SqlText ''up_vote'')]))"

text \<open>
  \<open>createCursor\<close>:
  \<open>Buffer.from(JSON.stringify({createdAt: vote.createdAt, creatorId: vote.creatorId})).toString("base64url")\<close>.
\<close>

definition createCursor :: "rawNode \<Rightarrow> string" where
  "createCursor vote =
     base64url_encode (bytes_of (JSON_stringify
       (Object [(''createdAt'', Date (createdAt (fst vote))),
                (''creatorId'', (case creatorId (fst vote) of None \<Rightarrow> Null | Some i \<Rightarrow> String i))])))"

definition createNode :: "rawNode \<Rightarrow> user_row" where
  "createNode vote = snd vote"

text \<open>\<open>commentVotes.filter((vote) => vote.creator !== null)\<close>\<close>

definition rawNodes :: "commentVote list \<Rightarrow> rawNode list" where
  "rawNodes commentVotes = List.map_filter (\<lambda>vote. map_option (Pair vote) (creator vote)) commentVotes"

definition cursor_not_found_error :: "bool \<Rightarrow> TalawaGraphQLError" where
  "cursor_not_found_error inversed = not_found_error [if inversed then ''before'' else ''after'']"

definition upVoters_commentVotes :: "'f drizzleClient \<Rightarrow> string \<Rightarrow> parsedArgs \<Rightarrow> commentVote list" where
  "upVoters_commentVotes db parent_id args =
     findMany db (limit args) (upVoters_orderBy (isInversed args))
       (upVoters_where (cursor args) (isInversed args) parent_id)"

definition upVoters_resolve ::
  "('a, 'c) upVoters_env \<Rightarrow> string \<Rightarrow> 'a \<Rightarrow> 'f graphql_ctx \<Rightarrow> TalawaGraphQLError + 'c" where
  "upVoters_resolve env parent_id args ctx =
     (case upVotersArgumentsSchema env args of
        Inl issues \<Rightarrow> Inl (invalid_arguments_error issues)
      | Inr parsed \<Rightarrow>
         (let commentVotes = upVoters_commentVotes (drizzleClient ctx) parent_id parsed in
          if cursor parsed \<noteq> None \<and> commentVotes = []
          then Inl (cursor_not_found_error (isInversed parsed))
          else Inr (transformToDefaultGraphQLConnection env createCursor createNode parsed
                      (rawNodes commentVotes))))"

section \<open>Notions used to state the properties\<close>

text \<open>
  The order of two fetched votes on (\<open>createdAt\<close>, \<open>creatorId\<close>), a null \<open>creatorId\<close>
  counting as the largest: \<open>ascending a b\<close> says that \<open>a\<close> may stand before \<open>b\<close> in an
  ascending list, \<open>descending a b\<close> that it may in a descending one.
\<close>

fun creatorId_le :: "string option \<Rightarrow> string option \<Rightarrow> bool" where
  "creatorId_le _ None = True"
| "creatorId_le None (Some _) = False"
| "creatorId_le (Some a) (Some b) = (a \<le> b)"

definition ascending :: "commentVote \<Rightarrow> commentVote \<Rightarrow> bool" where
  "ascending a b \<longleftrightarrow>
     createdAt a < createdAt b \<or>
     (createdAt a = createdAt b \<and> creatorId_le (creatorId a) (creatorId b))"

definition descending :: "commentVote \<Rightarrow> commentVote \<Rightarrow> bool" where
  "descending a b \<longleftrightarrow> ascending b a"


text \<open>The conditions an \<open>and(...)\<close> filter joins.\<close>

fun conjuncts :: "SQL \<Rightarrow> SQL list" where
  "conjuncts (And ws) = ws"
| "conjuncts w = [w]"

section \<open>Example validators and an example database of votes\<close>

text \<open>
  Two validators a cursor schema can be built from, used in the examples.
  \<open>datetime_schema\<close> accepts a JSON string of the form \<open>YYYY-MM-DDTHH:MM:SS.mmmZ\<close> and
  yields its timestamp; \<open>string_schema\<close> accepts any JSON string.  \<open>date_schema\<close> accepts
  a \<open>Date\<close> object only.
\<close>

definition days_from_civil :: "int \<Rightarrow> int \<Rightarrow> int \<Rightarrow> int" where
  "days_from_civil y0 m d =
     (let y = (if m \<le> 2 then y0 - 1 else y0);
          era = y div 400;
          yoe = y - era * 400;
          doy = (153 * (if m > 2 then m - 3 else m + 9) + 2) div 5 + d - 1;
          doe = yoe * 365 + yoe div 4 - yoe div 100 + doy
      in era * 146097 + doe - 719468)"

definition digits_value :: "string \<Rightarrow> int option" where
  "digits_value s =
     (if s \<noteq> [] \<and> list_all is_digit s
      then Some (foldl (\<lambda>n c. 10 * n + (int (of_char c) - 48)) 0 s) else None)"

definition parse_iso :: "string \<Rightarrow> int option" where
  "parse_iso s =
     (if length s = 24 \<and> s ! 4 = CHR ''-'' \<and> s ! 7 = CHR ''-'' \<and> s ! 10 = CHR ''T''
         \<and> s ! 13 = CHR '':'' \<and> s ! 16 = CHR '':'' \<and> s ! 19 = CHR ''.'' \<and> s ! 23 = CHR ''Z''
      then
        (case (digits_value (take 4 s), digits_value (take 2 (drop 5 s)),
               digits_value (take 2 (drop 8 s)), digits_value (take 2 (drop 11 s)),
               digits_value (take 2 (drop 14 s)), digits_value (take 2 (drop 17 s)),
               digits_value (take 3 (drop 20 s))) of
           (Some y, Some m, Some d, Some h, Some mi, Some sec, Some ms) \<Rightarrow>
             Some (days_from_civil y m d * 86400000 + h * 3600000 + mi * 60000 + sec * 1000 + ms)
         | _ \<Rightarrow> None)
      else None)"

definition datetime_schema :: "int field_schema" where
  "datetime_schema v = (case v of Some (String s) \<Rightarrow> parse_iso s | _ \<Rightarrow> None)"

definition string_schema :: "string field_schema" where
  "string_schema v = (case v of Some (String s) \<Rightarrow> Some s | _ \<Rightarrow> None)"

definition date_schema :: "int field_schema" where
  "date_schema v = (case v of Some (Date t) \<Rightarrow> Some t | _ \<Rightarrow> None)"

text \<open>
  An environment for the examples: the arguments arrive normalized, the connection is the
  list of its edges (cursor and node) in the order of \<open>rawNodes\<close>.
\<close>

definition env1 :: "(connection_arguments, (string \<times> user_row) list) upVoters_env" where
  "env1 = \<lparr>connectionArguments = Inr,
           createdAt_schema = datetime_schema,
           creatorId_schema = string_schema,
           transformToDefaultGraphQLConnection =
             (\<lambda>mkCursor mkNode parsed nodes. map (\<lambda>n. (mkCursor n, mkNode n)) nodes)\<rparr>"

text \<open>
  Five up votes and one down vote on comment \<open>c1\<close>; the creator of the second vote has
  been deleted, so its \<open>creatorId\<close> is null.
\<close>

definition ctx1 :: "unit graphql_ctx" where
  "ctx1 = \<lparr>currentClient = Unauthenticated,
     drizzleClient = \<lparr>
       usersTable = [\<lparr>user_id = ''u1'', user_role = ''regular''\<rparr>,
                     \<lparr>user_id = ''u2'', user_role = ''regular''\<rparr>,
                     \<lparr>user_id = ''u3'', user_role = ''regular''\<rparr>,
                     \<lparr>user_id = ''u4'', user_role = ''regular''\<rparr>],
       organizationMembershipsTable = [],
       fundsTable = [],
       commentVotesTable =
         [\<lparr>vote_commentId = ''c1'', vote_createdAt = 1704067200000,
           vote_creatorId = Some ''u1'', vote_type = ''up_vote''\<rparr>,
          \<lparr>vote_commentId = ''c1'', vote_createdAt = 1704067260000,
           vote_creatorId = None, vote_type = ''up_vote''\<rparr>,
          \<lparr>vote_commentId = ''c1'', vote_createdAt = 1704067320000,
           vote_creatorId = Some ''u2'', vote_type = ''up_vote''\<rparr>,
          \<lparr>vote_commentId = ''c1'', vote_createdAt = 1704067380000,
           vote_creatorId = Some ''u3'', vote_type = ''up_vote''\<rparr>,
          \<lparr>vote_commentId = ''c1'', vote_createdAt = 1704067380000,
           vote_creatorId = Some ''u4'', vote_type = ''up_vote''\<rparr>,
          \<lparr>vote_commentId = ''c1'', vote_createdAt = 1704067290000,
           vote_creatorId = Some ''u3'', vote_type = ''down_vote''\<rparr>]\<rparr>\<rparr>"

section \<open>A small database used in the examples\<close>

text \<open>
  Two users (a global administrator \<open>u1\<close> and a regular user \<open>u2\<close>, who is a regular
  member of organization \<open>o1\<close>) and two funds of \<open>o1\<close>.
\<close>

definition ctx0 :: "unit graphql_ctx" where
  "ctx0 = \<lparr>currentClient = Authenticated ''u1'',
     drizzleClient = \<lparr>
       usersTable = [\<lparr>user_id = ''u1'', user_role = ''administrator''\<rparr>,
                     \<lparr>user_id = ''u2'', user_role = ''regular''\<rparr>],
       organizationMembershipsTable =
         [\<lparr>membership_memberId = ''u2'', membership_organizationId = ''o1'',
           membership_role = ''regular''\<rparr>],
       fundsTable =
         [\<lparr>fund_id = ''f1'', fund_isTaxDeductible = False, fund_name = ''General'',
           fund_organizationId = ''o1'', fund_updaterId = None\<rparr>,
          \<lparr>fund_id = ''f2'', fund_isTaxDeductible = True, fund_name = ''Relief'',
           fund_organizationId = ''o1'', fund_updaterId = None\<rparr>],
       commentVotesTable = []\<rparr>\<rparr>"

definition input0 :: MutationUpdateFundInput where
  "input0 = \<lparr>input_id = ''f1'', input_isTaxDeductible = Some True, input_name = None\<rparr>"

section \<open>Properties of \<open>updateFund\<close>\<close>


lemma returning_nonempty:
  "find (\<lambda>f. fund_id f = input_id input) rows = Some f \<Longrightarrow>
     \<exists>rest. returning input uid rows = update_set input uid f # rest"
  by (induction rows) (auto simp: returning_def split: if_splits)



lemma updateFund_checks_InrI:
  assumes "currentClient ctx = Authenticated uid"
    and "safeParse args = Inr input"
    and "find (\<lambda>u. user_id u = uid) (usersTable (drizzleClient ctx)) = Some cu"
    and "find_existingFund (drizzleClient ctx) uid (input_id input) = Some ef"
    and "case input_name input of None \<Rightarrow> True
         | Some n \<Rightarrow> existingFundWithName (drizzleClient ctx) n (organizationId ef) = None"
  shows "updateFund_checks safeParse args ctx = Inr (uid, input, cu, ef)"
  using assms
  by (auto simp: updateFund_checks_def split: currentClient.splits sum.splits option.splits)

lemma updateFund_resolve_after_checks:
  assumes "updateFund_checks safeParse args ctx = Inr (uid, input, cu, ef)"
    and "find (\<lambda>f. fund_id f = input_id input) (fundsTable (drizzleClient ctx)) = Some f"
  shows "updateFund_resolve safeParse args ctx =
     (if is_unauthorized cu ef then (Inl unauthorized_error, drizzleClient ctx)
      else (Inr (update_set input uid f),
            (drizzleClient ctx)\<lparr>fundsTable := update_funds input uid (fundsTable (drizzleClient ctx))\<rparr>))"
proof -
  obtain rest where "returning input uid (fundsTable (drizzleClient ctx)) = update_set input uid f # rest"
    using returning_nonempty [OF assms(2)] by blast
  then show ?thesis
    using assms(1) by (simp add: updateFund_resolve_def Let_def)
qed



lemma find_existingFund_eq:
  "find_existingFund db uid fid =
     map_option (\<lambda>f. \<lparr>organizationId = fund_organizationId f,
        organizationMembershipsWhereOrganization =
          filter (\<lambda>m. membership_organizationId m = fund_organizationId f
                      \<and> membership_memberId m = uid) (organizationMembershipsTable db)\<rparr>)
       (find (\<lambda>f. fund_id f = fid) (fundsTable db))"
  by (simp add: find_existingFund_def split: option.splits)

lemma is_unauthorized_iff:
  "is_unauthorized cu ef \<longleftrightarrow>
      \<not> (user_role cu = ''administrator'' \<or>
         (\<exists>m ms. organizationMembershipsWhereOrganization ef = m # ms
            \<and> membership_role m = ''administrator''))"
  by (auto simp: is_unauthorized_def split: list.splits)




lemma updateFund_resolve_found:
  assumes "currentClient ctx = Authenticated uid"
    and "safeParse args = Inr input"
    and "find (\<lambda>u. user_id u = uid) (usersTable (drizzleClient ctx)) = Some cu"
    and "find (\<lambda>f. fund_id f = input_id input) (fundsTable (drizzleClient ctx)) = Some f"
    and "case input_name input of None \<Rightarrow> True
         | Some n \<Rightarrow> existingFundWithName (drizzleClient ctx) n (fund_organizationId f) = None"
  shows "updateFund_resolve safeParse args ctx =
     (if user_role cu = ''administrator'' \<or>
         (\<exists>m ms. filter (\<lambda>m. membership_organizationId m = fund_organizationId f
                             \<and> membership_memberId m = uid)
                     (organizationMembershipsTable (drizzleClient ctx)) = m # ms
                 \<and> membership_role m = ''administrator'')
      then (Inr (update_set input uid f),
            (drizzleClient ctx)\<lparr>fundsTable :=
               update_funds input uid (fundsTable (drizzleClient ctx))\<rparr>)
      else (Inl unauthorized_error, drizzleClient ctx))"
proof -
  define ef where "ef = \<lparr>organizationId = fund_organizationId f,
        organizationMembershipsWhereOrganization =
          filter (\<lambda>m. membership_organizationId m = fund_organizationId f
                      \<and> membership_memberId m = uid)
            (organizationMembershipsTable (drizzleClient ctx))\<rparr>"
  have ef: "find_existingFund (drizzleClient ctx) uid (input_id input) = Some ef"
    by (simp add: find_existingFund_eq assms(4) ef_def)
  have org: "organizationId ef = fund_organizationId f"
    by (simp add: ef_def)
  have "updateFund_checks safeParse args ctx = Inr (uid, input, cu, ef)"
    using assms(1-3) ef assms(5)
    by (auto simp: updateFund_checks_def org split: option.splits)
  then show ?thesis
    using updateFund_resolve_after_checks [of safeParse args ctx uid input cu ef f] assms(4)
    by (simp add: is_unauthorized_iff ef_def)
qed

text \<open>
  Claim C3.  An \<open>updateFund\<close> call that reaches the authorization step (the caller is
  authenticated, the arguments parse, the caller's row and the target fund are found and
  the name check passes) is permitted exactly when the caller's global role is
  \<open>administrator\<close> or the caller's membership in the fund's organization has the role
  \<open>administrator\<close>.  A permitted call returns the updated fund; every other call raises
  \<open>unauthorized_action_on_arguments_associated_resources\<close> with the argument path
  \<open>["input", "id"]\<close> and leaves the database as it was.
\<close>

theorem updateFund_authorization:
  assumes "currentClient ctx = Authenticated uid"
    and "safeParse args = Inr input"
    and "find (\<lambda>u. user_id u = uid) (usersTable (drizzleClient ctx)) = Some cu"
    and "find (\<lambda>f. fund_id f = input_id input) (fundsTable (drizzleClient ctx)) = Some f"
    and "case input_name input of None \<Rightarrow> True
         | Some n \<Rightarrow> existingFundWithName (drizzleClient ctx) n (fund_organizationId f) = None"
  shows "updateFund_resolve safeParse args ctx =
     (if user_role cu = ''administrator'' \<or>
         (\<exists>m ms. filter (\<lambda>m. membership_organizationId m = fund_organizationId f
                             \<and> membership_memberId m = uid)
                     (organizationMembershipsTable (drizzleClient ctx)) = m # ms
                 \<and> membership_role m = ''administrator'')
      then (Inr (update_set input uid f),
            (drizzleClient ctx)\<lparr>fundsTable :=
               update_funds input uid (fundsTable (drizzleClient ctx))\<rparr>)
      else (Inl \<lparr>extensions = unauthorized_action_on_arguments_associated_resources
                    [\<lparr>argumentPath = [''input'', ''id''], issue_message = None\<rparr>],
                 message = ''You are not authorized to perform this action on the resources associated to the provided arguments.''\<rparr>,
            drizzleClient ctx))"
  using updateFund_resolve_found [of ctx uid safeParse args input cu f] assms
  by (simp add: unauthorized_error_def)

theorem updateFund_authorization_witness:
  "updateFund_resolve Inr input0 ctx0 =
     (Inr \<lparr>fund_id = ''f1'', fund_isTaxDeductible = True, fund_name = ''General'',
            fund_organizationId = ''o1'', fund_updaterId = Some ''u1''\<rparr>,
      (drizzleClient ctx0)\<lparr>fundsTable :=
         [\<lparr>fund_id = ''f1'', fund_isTaxDeductible = True, fund_name = ''General'',
           fund_organizationId = ''o1'', fund_updaterId = Some ''u1''\<rparr>,
          \<lparr>fund_id = ''f2'', fund_isTaxDeductible = True, fund_name = ''Relief'',
           fund_organizationId = ''o1'', fund_updaterId = None\<rparr>]\<rparr>)"
  using updateFund_authorization [of ctx0 "''u1''" Inr input0 input0
      "\<lparr>user_id = ''u1'', user_role = ''administrator''\<rparr>"
      "\<lparr>fund_id = ''f1'', fund_isTaxDeductible = False, fund_name = ''General'',
           fund_organizationId = ''o1'', fund_updaterId = None\<rparr>"]
  by (simp add: ctx0_def input0_def update_set_def update_funds_def)









section \<open>Properties of the filter of \<open>upVoters\<close>\<close>

lemma and3_TT: "and3 a b = TT \<longleftrightarrow> a = TT \<and> b = TT"
  by (cases a; cases b) simp_all

lemma or3_TT: "or3 a b = TT \<longleftrightarrow> a = TT \<or> b = TT"
  by (cases a; cases b) simp_all

lemma tv_of_TT: "tv_of b = TT \<longleftrightarrow> b"
  by (simp add: tv_of_def)

lemma eval_timestamp:
  "compare3 p q (column_value r col_createdAt) (SqlTimestamp t) = TT \<longleftrightarrow> p (vote_createdAt r) t"
  by (simp add: tv_of_TT)

lemma eval_creatorId:
  "compare3 p q (case vote_creatorId r of None \<Rightarrow> SqlNull | Some x \<Rightarrow> SqlText x) (SqlText i) = TT
     \<longleftrightarrow> (\<exists>j. vote_creatorId r = Some j \<and> q j i)"
  by (cases "vote_creatorId r") (simp_all add: tv_of_TT)

lemma eval_creatorId_null:
  "compare3 p q (case vote_creatorId r of None \<Rightarrow> SqlNull | Some x \<Rightarrow> SqlText x) SqlNull = UU"
  by (cases "vote_creatorId r") simp_all

lemma eval_commentId:
  "compare3 p q (column_value r col_commentId) (SqlText i) = TT \<longleftrightarrow> q (vote_commentId r) i"
  by (simp add: tv_of_TT)

lemma eval_type:
  "compare3 p q (column_value r col_type) (SqlText i) = TT \<longleftrightarrow> q (vote_type r) i"
  by (simp add: tv_of_TT)

lemmas eval_TT = and3_TT or3_TT tv_of_TT eval_timestamp eval_creatorId eval_commentId eval_type
  list_ex_iff

lemma where_cursor_inversed:
  "eval_sql tbl (upVoters_where (Some c) True p) r = TT \<longleftrightarrow>
     (vote_commentId r = p \<and> vote_type r = ''up_vote'')
   \<and> (\<exists>r' \<in> set tbl. vote_createdAt r' = cursor_createdAt c
          \<and> vote_creatorId r' = Some (cursor_creatorId c)
          \<and> vote_commentId r' = p \<and> vote_type r' = ''up_vote'')
   \<and> ((vote_createdAt r = cursor_createdAt c
          \<and> (\<exists>i. vote_creatorId r = Some i \<and> cursor_creatorId c < i))
        \<or> cursor_createdAt c < vote_createdAt r)"
  by (auto simp: upVoters_where_def eval_TT)

lemma where_cursor_forward:
  "eval_sql tbl (upVoters_where (Some c) False p) r = TT \<longleftrightarrow>
     (vote_commentId r = p \<and> vote_type r = ''up_vote'')
   \<and> (\<exists>r' \<in> set tbl. vote_createdAt r' = cursor_createdAt c
          \<and> vote_creatorId r' = Some (cursor_creatorId c)
          \<and> vote_commentId r' = p \<and> vote_type r' = ''up_vote'')
   \<and> ((vote_createdAt r = cursor_createdAt c
          \<and> (\<exists>i. vote_creatorId r = Some i \<and> i < cursor_creatorId c))
        \<or> vote_createdAt r < cursor_createdAt c)"
  by (auto simp: upVoters_where_def eval_TT)

lemma where_no_cursor:
  "eval_sql tbl (upVoters_where None inversed p) r \<noteq> TT"
  by (simp add: upVoters_where_def eval_TT eval_creatorId_null)

section \<open>The order of the fetched votes\<close>

lemma sql_less_irrefl: "\<not> sql_less a a"
  by (cases a) simp_all

lemma sql_less_trans: "sql_less a b \<Longrightarrow> sql_less b c \<Longrightarrow> sql_less a c"
  by (cases a; cases b; cases c) simp_all

lemma sql_less_asym: "sql_less a b \<Longrightarrow> \<not> sql_less b a"
  by (cases a; cases b) simp_all

lemma sql_less_total: "sql_less a b \<or> a = b \<or> sql_less b a"
  by (cases a; cases b) auto

lemma precedes_asym: "precedes os a b \<Longrightarrow> \<not> precedes os b a"
  by (induction os a b rule: precedes.induct) (auto dest: sql_less_asym simp: sql_less_irrefl)

lemma precedes_trans: "precedes os a b \<Longrightarrow> precedes os b c \<Longrightarrow> precedes os a c"
proof (induction os a b rule: precedes.induct)
  case (1 a b)
  then show ?case by simp
next
  case (2 k os a b)
  then show ?case
    by (auto dest: sql_less_trans)
next
  case (3 k os a b)
  then show ?case
    by (auto dest: sql_less_trans)
qed

lemma sql_nless_trans: "\<not> sql_less b a \<Longrightarrow> \<not> sql_less c b \<Longrightarrow> \<not> sql_less c a"
  using sql_less_total [of a b] sql_less_total [of b c] sql_less_trans [of a b c]
    sql_less_asym [of a c] sql_less_irrefl [of a]
  by blast

lemma sql_nless_eq: "\<not> sql_less b a \<Longrightarrow> \<not> sql_less a b \<Longrightarrow> a = b"
  using sql_less_total [of a b] by blast

lemma not_precedes_trans:
  "\<not> precedes os b a \<Longrightarrow> \<not> precedes os c b \<Longrightarrow> \<not> precedes os c a"
proof (induction os arbitrary: a b c)
  case Nil
  show ?case by simp
next
  case (Cons o1 os)
  obtain k where k: "o1 = asc k \<or> o1 = desc k"
    by (cases o1) auto
  define x y z where "x = column_value a k" and "y = column_value b k" and "z = column_value c k"
  define L where "L = (\<lambda>u v. if o1 = asc k then sql_less u v else sql_less v u)"
  have prec: "precedes (o1 # os) u v \<longleftrightarrow>
      L (column_value u k) (column_value v k)
      \<or> (column_value u k = column_value v k \<and> precedes os u v)" for u v
    using k by (auto simp: L_def)
  have Ltrans: "\<not> L q p \<Longrightarrow> \<not> L r q \<Longrightarrow> \<not> L r p" for p q r
    unfolding L_def using sql_nless_trans [of q p r] sql_nless_trans [of q r p]
    by (auto split: if_splits)
  have Leq: "\<not> L q p \<Longrightarrow> \<not> L p q \<Longrightarrow> p = q" for p q
    unfolding L_def using sql_nless_eq [of p q] sql_nless_eq [of q p]
    by (auto split: if_splits)
  have n1: "\<not> L y x" "y = x \<Longrightarrow> \<not> precedes os b a"
    using Cons.prems(1) unfolding prec x_def y_def by auto
  have n2: "\<not> L z y" "z = y \<Longrightarrow> \<not> precedes os c b"
    using Cons.prems(2) unfolding prec y_def z_def by auto
  have g1: "\<not> L z x"
    using Ltrans [OF n1(1) n2(1)] .
  have g2: "\<not> precedes os c a" if "z = x"
  proof -
    have "\<not> L x y" using n2(1) that by simp
    then have "x = y" using Leq [OF n1(1)] by simp
    then show ?thesis
      using n1(2) n2(2) that Cons.IH [of b a c] by simp
  qed
  show ?case
    unfolding prec using g1 g2 by (auto simp: x_def z_def)
qed

lemma set_insert_row: "set (insert_row os x ys) = insert x (set ys)"
  by (induction ys) auto

lemma sorted_insert_row:
  "sorted_wrt (\<lambda>a b. \<not> precedes os b a) ys \<Longrightarrow>
     sorted_wrt (\<lambda>a b. \<not> precedes os b a) (insert_row os x ys)"
proof (induction ys)
  case Nil
  show ?case by simp
next
  case (Cons y ys)
  show ?case
  proof (cases "precedes os y x")
    case True
    then have "\<not> precedes os x y"
      by (rule precedes_asym)
    then show ?thesis
      using True Cons by (auto simp: set_insert_row)
  next
    case False
    have "\<not> precedes os z x" if "z \<in> set ys" for z
      using that Cons.prems False not_precedes_trans [of os y x z] by auto
    then show ?thesis
      using False Cons.prems by auto
  qed
qed

lemma sorted_order_rows: "sorted_wrt (\<lambda>a b. \<not> precedes os b a) (order_rows os rows)"
  unfolding order_rows_def by (induction rows) (simp_all add: sorted_insert_row)

lemma set_order_rows: "set (order_rows os rows) = set rows"
  unfolding order_rows_def by (induction rows) (simp_all add: set_insert_row)

lemma length_insert_row: "length (insert_row os x ys) = Suc (length ys)"
  by (induction ys) auto

lemma length_order_rows: "length (order_rows os rows) = length rows"
  unfolding order_rows_def by (induction rows) (simp_all add: length_insert_row)

lemma creatorId_le_sql:
  "creatorId_le (vote_creatorId a) (vote_creatorId b) \<longleftrightarrow>
     \<not> sql_less (column_value b col_creatorId) (column_value a col_creatorId)"
  by (cases "vote_creatorId a"; cases "vote_creatorId b") auto

lemma not_precedes_asc:
  "\<not> precedes [asc col_createdAt, asc col_creatorId] b a \<longleftrightarrow>
     ascending (with_creator db a) (with_creator db b)"
proof -
  have e: "column_value a col_creatorId = column_value b col_creatorId \<Longrightarrow>
      \<not> sql_less (column_value b col_creatorId) (column_value a col_creatorId)"
    by (simp add: sql_less_irrefl)
  show ?thesis
    unfolding ascending_def
    by (auto simp: with_creator_def creatorId_le_sql sql_less_irrefl
        simp del: column_value.simps(2))
qed

lemma not_precedes_desc:
  "\<not> precedes [desc col_createdAt, desc col_creatorId] b a \<longleftrightarrow>
     descending (with_creator db a) (with_creator db b)"
  unfolding descending_def ascending_def
  by (auto simp: with_creator_def creatorId_le_sql sql_less_irrefl
      simp del: column_value.simps(2))

lemma not_precedes_orderBy:
  "\<not> precedes (upVoters_orderBy inversed) b a \<longleftrightarrow>
     (if inversed then ascending else descending) (with_creator db a) (with_creator db b)"
  using not_precedes_asc [of b a db] not_precedes_desc [of b a db]
  by (simp add: upVoters_orderBy_def)

lemma sorted_findMany:
  "sorted_wrt (if inversed then ascending else descending)
     (findMany db lim (upVoters_orderBy inversed) wh)"
proof -
  let ?rows = "order_rows (upVoters_orderBy inversed)
      (filter (\<lambda>r. eval_sql (commentVotesTable db) wh r = TT) (commentVotesTable db))"
  have "sorted_wrt (\<lambda>a b. \<not> precedes (upVoters_orderBy inversed) b a) (take lim ?rows)"
    by (intro sorted_wrt_take sorted_order_rows)
  then show ?thesis
    unfolding findMany_def sorted_wrt_map not_precedes_orderBy [of inversed _ _ db] .
qed

lemma rawNodes_Nil: "rawNodes [] = []"
  by (simp add: rawNodes_def map_filter_simps)

lemma rawNodes_Cons:
  "rawNodes (v # vs) = (case creator v of None \<Rightarrow> rawNodes vs | Some u \<Rightarrow> (v, u) # rawNodes vs)"
  by (simp add: rawNodes_def map_filter_simps split: option.splits)

lemma map_fst_rawNodes: "map fst (rawNodes vs) = filter (\<lambda>v. creator v \<noteq> None) vs"
  by (induction vs) (auto simp: rawNodes_Nil rawNodes_Cons split: option.splits)

lemma rawNodes_creator: "n \<in> set (rawNodes vs) \<Longrightarrow> creator (fst n) = Some (snd n)"
  by (induction vs) (auto simp: rawNodes_Nil rawNodes_Cons split: option.splits)

lemma sorted_rawNodes:
  assumes "sorted_wrt R vs"
  shows "sorted_wrt (\<lambda>a b. R (fst a) (fst b)) (rawNodes vs)"
proof -
  have "sorted_wrt R (map fst (rawNodes vs))"
    unfolding map_fst_rawNodes using assms by (rule sorted_wrt_filter)
  then show ?thesis
    by (simp add: sorted_wrt_map)
qed

lemma upVoters_resolve_parsed:
  assumes "upVotersArgumentsSchema env args = Inr parsed"
  shows "upVoters_resolve env p args ctx =
     (if cursor parsed \<noteq> None \<and> upVoters_commentVotes (drizzleClient ctx) p parsed = []
      then Inl (cursor_not_found_error (isInversed parsed))
      else Inr (transformToDefaultGraphQLConnection env createCursor createNode parsed
                  (rawNodes (upVoters_commentVotes (drizzleClient ctx) p parsed))))"
  using assms by (simp add: upVoters_resolve_def Let_def)

lemma upVoters_resolve_invalid:
  assumes "upVotersArgumentsSchema env args = Inl issues"
  shows "upVoters_resolve env p args ctx = Inl (invalid_arguments_error issues)"
  using assms by (simp add: upVoters_resolve_def)

lemma findMany_no_match:
  assumes "\<forall>r \<in> set (commentVotesTable db). eval_sql (commentVotesTable db) wh r \<noteq> TT"
  shows "findMany db lim ob wh = []"
proof -
  have "filter (\<lambda>r. eval_sql (commentVotesTable db) wh r = TT) (commentVotesTable db) = []"
    using assms by (simp add: filter_empty_conv)
  then show ?thesis
    by (simp add: findMany_def order_rows_def)
qed

lemma where_none_implies_base:
  "eval_sql tbl (upVoters_where None inversed p) r = TT \<Longrightarrow>
     vote_commentId r = p \<and> vote_type r = ''up_vote''"
  by (simp add: upVoters_where_def eval_TT split: if_splits)

section \<open>Properties of the \<open>upVoters\<close> resolver\<close>

text \<open>
  Claim C2.  With a decoded cursor the row filter of \<open>upVoters\<close> is the conjunction of:
  the existence check for a row with exactly the cursor's \<open>createdAt\<close> and \<open>creatorId\<close>,
  the parent comment and the type \<open>up_vote\<close>; the base filter (\<open>commentId\<close> is the parent
  comment, \<open>type\<close> is \<open>up_vote\<close>); and the strict range predicate
  (\<open>createdAt\<close> equal and \<open>creatorId\<close> beyond the cursor's, or \<open>createdAt\<close> beyond the
  cursor's), with \<open>>\<close> when inversed and \<open><\<close> when forward.  A row is selected exactly when
  the three hold of it.
\<close>

theorem upVoters_where_cursor:
  "upVoters_where (Some c) inversed p =
     And [Exists (And [Eq col_createdAt (SqlTimestamp (cursor_createdAt c)),
                       Eq col_creatorId (SqlText (cursor_creatorId c)),
                       Eq col_commentId (SqlText p),
                       Eq col_type (SqlText ''up_vote'')]),
          Eq col_commentId (SqlText p),
          Eq col_type (SqlText ''up_vote''),
          Or [And [Eq col_createdAt (SqlTimestamp (cursor_createdAt c)),
                   (if inversed then Gt else Lt) col_creatorId (SqlText (cursor_creatorId c))],
              (if inversed then Gt else Lt) col_createdAt (SqlTimestamp (cursor_createdAt c))]]
   \<and> (eval_sql tbl (upVoters_where (Some c) inversed p) r = TT \<longleftrightarrow>
        (vote_commentId r = p \<and> vote_type r = ''up_vote'')
      \<and> (\<exists>r' \<in> set tbl. vote_createdAt r' = cursor_createdAt c
             \<and> vote_creatorId r' = Some (cursor_creatorId c)
             \<and> vote_commentId r' = p \<and> vote_type r' = ''up_vote'')
      \<and> ((vote_createdAt r = cursor_createdAt c
             \<and> (\<exists>i. vote_creatorId r = Some i
                   \<and> (if inversed then cursor_creatorId c < i else i < cursor_creatorId c)))
           \<or> (if inversed then cursor_createdAt c < vote_createdAt r
               else vote_createdAt r < cursor_createdAt c)))"
proof (cases inversed)
  case True
  show ?thesis
    using where_cursor_inversed [of tbl c p r] True by (simp add: upVoters_where_def)
next
  case False
  show ?thesis
    using where_cursor_forward [of tbl c p r] False by (simp add: upVoters_where_def)
qed

text \<open>
  Claim C4.  \<open>upVoters\<close> raises \<open>arguments_associated_resources_not_found\<close> exactly when
  the arguments parse with a cursor and the query returns no row.  Without a cursor, and
  with no up vote on the parent comment, it returns the connection built from no node.
\<close>

theorem upVoters_not_found_iff:
  "((\<exists>issues msg. upVoters_resolve env p args ctx =
        Inl \<lparr>extensions = arguments_associated_resources_not_found issues, message = msg\<rparr>)
     \<longleftrightarrow> (\<exists>parsed c. upVotersArgumentsSchema env args = Inr parsed \<and> cursor parsed = Some c
            \<and> upVoters_commentVotes (drizzleClient ctx) p parsed = []))
   \<and> (\<forall>parsed. upVotersArgumentsSchema env args = Inr parsed \<and> cursor parsed = None
          \<and> (\<forall>r \<in> set (commentVotesTable (drizzleClient ctx)).
                \<not> (vote_commentId r = p \<and> vote_type r = ''up_vote''))
        \<longrightarrow> upVoters_resolve env p args ctx =
              Inr (transformToDefaultGraphQLConnection env createCursor createNode parsed []))"
proof (cases "upVotersArgumentsSchema env args")
  case (Inl issues)
  then show ?thesis
    by (simp add: upVoters_resolve_invalid invalid_arguments_error_def)
next
  case (Inr parsed)
  have empty: "upVoters_commentVotes (drizzleClient ctx) p parsed = []"
    if "cursor parsed = None"
      and "\<forall>r \<in> set (commentVotesTable (drizzleClient ctx)).
                \<not> (vote_commentId r = p \<and> vote_type r = ''up_vote'')"
    unfolding upVoters_commentVotes_def
    using that where_none_implies_base [of "commentVotesTable (drizzleClient ctx)" _ p]
    by (intro findMany_no_match) auto
  show ?thesis
    using Inr empty
    by (auto simp: upVoters_resolve_parsed [OF Inr] cursor_not_found_error_def
        not_found_error_def rawNodes_Nil)
qed

text \<open>
  Claim C7.  The query orders by \<open>createdAt\<close> and \<open>creatorId\<close>, both descending when
  traversing forward and both ascending when inversed; the votes fetched, and those
  handed on to the connection, are sorted that way (for a forward page without a cursor:
  \<open>createdAt\<close> descending, then \<open>creatorId\<close> descending).
\<close>

theorem upVoters_fetch_order:
  "upVoters_orderBy inversed =
     (if inversed then [asc col_createdAt, asc col_creatorId]
      else [desc col_createdAt, desc col_creatorId])
   \<and> sorted_wrt (if isInversed parsed then ascending else descending)
        (upVoters_commentVotes db p parsed)
   \<and> sorted_wrt (\<lambda>a b. (if isInversed parsed then ascending else descending) (fst a) (fst b))
        (rawNodes (upVoters_commentVotes db p parsed))"
  unfolding upVoters_commentVotes_def
  by (intro conjI sorted_rawNodes sorted_findMany) (simp add: upVoters_orderBy_def)

text \<open>
  Claim C9.  When \<open>upVoters\<close> does not raise the not-found error, it returns the
  connection built from \<open>rawNodes\<close>: the fetched votes whose \<open>creator\<close> is not null, in
  the order fetched, each with its creator as node.  A vote with a null creator is not
  among them, and dropping it raises no error and reports no issue: the result is a
  connection.
\<close>

theorem upVoters_dangling_dropped:
  assumes "upVotersArgumentsSchema env args = Inr parsed"
    and "cursor parsed = None \<or> upVoters_commentVotes (drizzleClient ctx) p parsed \<noteq> []"
  shows "upVoters_resolve env p args ctx =
           Inr (transformToDefaultGraphQLConnection env createCursor createNode parsed
                  (rawNodes (upVoters_commentVotes (drizzleClient ctx) p parsed)))
       \<and> map fst (rawNodes (upVoters_commentVotes (drizzleClient ctx) p parsed)) =
           filter (\<lambda>vote. creator vote \<noteq> None) (upVoters_commentVotes (drizzleClient ctx) p parsed)
       \<and> (\<forall>n \<in> set (rawNodes (upVoters_commentVotes (drizzleClient ctx) p parsed)).
             creator (fst n) = Some (createNode n))
       \<and> (\<forall>vote \<in> set (upVoters_commentVotes (drizzleClient ctx) p parsed).
             creator vote = None \<longrightarrow>
             vote \<notin> fst ` set (rawNodes (upVoters_commentVotes (drizzleClient ctx) p parsed)))"
proof -
  let ?cv = "upVoters_commentVotes (drizzleClient ctx) p parsed"
  have "vote \<notin> fst ` set (rawNodes ?cv)" if "creator vote = None" for vote
  proof
    assume "vote \<in> fst ` set (rawNodes ?cv)"
    then have "vote \<in> set (map fst (rawNodes ?cv))" by simp
    then show False
      unfolding map_fst_rawNodes using that by simp
  qed
  then show ?thesis
    using assms(2)
    by (auto simp: upVoters_resolve_parsed [OF assms(1)] map_fst_rawNodes createNode_def
        dest: rawNodes_creator)
qed

section \<open>The cursor codec\<close>

lemma unbase64_base64url_char: "n < 64 \<Longrightarrow> unbase64 (base64url_char n) = Some n"
  by (auto simp: unbase64_def base64url_char_def Let_def)

lemma base64url_char_not_pad: "n < 64 \<Longrightarrow> base64url_char n \<noteq> CHR ''=''"
proof
  assume n: "n < 64" and e: "base64url_char n = CHR ''=''"
  have "unbase64 (base64url_char n) = unbase64 CHR ''=''"
    by (simp only: e)
  then show False
    using n by (simp add: unbase64_base64url_char) (simp add: unbase64_def)
qed

lemma sextet1: "(a::nat) < 256 \<Longrightarrow> a div 4 < 64"
  by simp

lemma sextet2: "(b::nat) < 256 \<Longrightarrow> (a mod 4) * 16 + b div 16 < 64"
proof -
  assume "b < 256"
  then have "b div 16 < 16" by simp
  moreover have "a mod 4 < 4" by simp
  ultimately show ?thesis by linarith
qed

lemma sextet3: "(c::nat) < 256 \<Longrightarrow> (b mod 16) * 4 + c div 64 < 64"
proof -
  assume "c < 256"
  then have "c div 64 < 4" by simp
  moreover have "b mod 16 < 16" by simp
  ultimately show ?thesis by linarith
qed

lemma sextet4: "(c::nat) mod 64 < 64" "((b::nat) mod 16) * 4 < 64" "((a::nat) mod 4) * 16 < 64"
proof -
  have "b mod 16 < 16" "a mod 4 < 4" by simp_all
  then show "c mod 64 < 64" "(b mod 16) * 4 < 64" "(a mod 4) * 16 < 64"
    by simp_all
qed

lemmas sextets_lt = sextet1 sextet2 sextet3 sextet4

lemma regroup:
  fixes a b c :: nat
  assumes "b < 256" "c < 256"
  shows "a div 4 * 4 + ((a mod 4) * 16 + b div 16) div 16 = a"
    and "((a mod 4) * 16 + b div 16) mod 16 * 16 + ((b mod 16) * 4 + c div 64) div 4 = b"
    and "((b mod 16) * 4 + c div 64) mod 4 * 64 + c mod 64 = c"
    and "a div 4 * 4 + ((a mod 4) * 16) div 16 = a"
    and "((a mod 4) * 16 + b div 16) mod 16 * 16 + ((b mod 16) * 4) div 4 = b"
proof -
  have b: "b div 16 < 16" and c: "c div 64 < 4" using assms by simp_all
  show "a div 4 * 4 + ((a mod 4) * 16 + b div 16) div 16 = a"
    using b by simp
  show "((a mod 4) * 16 + b div 16) mod 16 * 16 + ((b mod 16) * 4 + c div 64) div 4 = b"
    using b c by simp
  show "((b mod 16) * 4 + c div 64) mod 4 * 64 + c mod 64 = c"
    using c by simp
  show "a div 4 * 4 + ((a mod 4) * 16) div 16 = a"
    by simp
  show "((a mod 4) * 16 + b div 16) mod 16 * 16 + ((b mod 16) * 4) div 4 = b"
    using b by simp
qed

lemma sextets_encode:
  "\<forall>b \<in> set bs. b < 256 \<Longrightarrow>
     takeWhile (\<lambda>c. c \<noteq> CHR ''='') (base64url_encode bs) = base64url_encode bs"
  by (induction bs rule: base64url_encode.induct)
     (simp_all add: base64url_char_not_pad sextets_lt)

lemma map_filter_sextet:
  "n < 64 \<Longrightarrow>
     List.map_filter unbase64 (base64url_char n # cs) = n # List.map_filter unbase64 cs"
  by (simp add: map_filter_simps unbase64_base64url_char)

lemma decode_quad:
  "b < 256 \<Longrightarrow> c < 256 \<Longrightarrow>
     base64_decode_groups
       (a div 4 # ((a mod 4) * 16 + b div 16) # ((b mod 16) * 4 + c div 64) # c mod 64 # ss)
     = a # b # c # base64_decode_groups ss"
  by (simp only: base64_decode_groups.simps regroup)

lemma decode_triple:
  "b < 256 \<Longrightarrow>
     base64_decode_groups [a div 4, (a mod 4) * 16 + b div 16, (b mod 16) * 4] = [a, b]"
  using regroup(1,5) [of b 0 a] by (simp only: base64_decode_groups.simps)

lemma decode_pair: "base64_decode_groups [a div 4, (a mod 4) * 16] = [a]"
  by simp

lemma decode_groups_encode:
  "\<forall>b \<in> set bs. b < 256 \<Longrightarrow>
     base64_decode_groups (List.map_filter unbase64 (base64url_encode bs)) = bs"
proof (induction bs rule: base64url_encode.induct)
  case (1 a b c bs)
  then have lt: "a < 256" "b < 256" "c < 256" and IH:
    "base64_decode_groups (List.map_filter unbase64 (base64url_encode bs)) = bs"
    by simp_all
  show ?case
    by (simp only: base64url_encode.simps map_filter_sextet sextets_lt lt decode_quad IH)
next
  case (2 a b)
  then have lt: "a < 256" "b < 256" by simp_all
  have e: "List.map_filter unbase64 [] = ([] :: nat list)"
    by simp
  show ?case
    by (simp only: base64url_encode.simps map_filter_sextet sextets_lt lt e decode_triple)
next
  case (3 a)
  then have lt: "a < 256" by simp
  have e: "List.map_filter unbase64 [] = ([] :: nat list)"
    by simp
  show ?case
    by (simp only: base64url_encode.simps map_filter_sextet sextets_lt lt e decode_pair)
next
  case 4
  show ?case by simp
qed

lemma base64url_decode_encode:
  "\<forall>b \<in> set bs. b < 256 \<Longrightarrow> base64url_decode (base64url_encode bs) = bs"
  by (simp add: base64url_decode_def sextets_encode decode_groups_encode)

lemma string_of_bytes_of: "string_of (bytes_of s) = s"
  by (simp add: string_of_def bytes_of_def comp_def)

lemma bytes_of_lt: "\<forall>b \<in> set (bytes_of s). b < 256"
  by (simp add: bytes_of_def)

lemma base64url_roundtrip:
  "string_of (base64url_decode (base64url_encode (bytes_of s))) = s"
  by (simp add: base64url_decode_encode bytes_of_lt string_of_bytes_of)

lemma hex_val_hex_char: "hex_val (hex_char n) = Some (n mod 16)"
proof -
  define m where "m = n mod 16"
  have m: "m < 16" by (simp add: m_def)
  have a: "m < 10 \<Longrightarrow> (of_char (char_of (48 + m)) :: nat) = 48 + m"
    by simp
  have b: "\<not> m < 10 \<Longrightarrow> (of_char (char_of (87 + m)) :: nat) = 87 + m"
    using m by simp
  show ?thesis
    unfolding hex_val_def hex_char_def Let_def m_def [symmetric]
    using m a b by (cases "m < 10") simp_all
qed

lemma quote_char_cases:
  "quote_char c = [c] \<and> c \<noteq> CHR 0x22 \<and> c \<noteq> CHR 0x5C \<and> \<not> (of_char c :: nat) < 32
   \<or> (\<exists>e. quote_char c = [CHR 0x5C, e] \<and> e \<noteq> CHR ''u'' \<and> unescape e = Some c)
   \<or> (quote_char c = [CHR 0x5C, CHR ''u'', CHR ''0'', CHR ''0'', hex_char (of_char c div 16), hex_char (of_char c)]
        \<and> (of_char c :: nat) < 32)"
  by (simp add: unescape_def)

lemma small_arith: "(n::nat) < 32 \<Longrightarrow> (n div 16) mod 16 * 16 + n mod 16 = n"
proof -
  assume "n < 32"
  then have "n div 16 < 16" by simp
  then have "(n div 16) mod 16 = n div 16" by simp
  then show ?thesis by simp
qed

lemma hex_val_0: "hex_val CHR ''0'' = Some 0"
  by (simp add: hex_val_def)

lemma code_unit_small:
  assumes "(of_char c :: nat) < 32"
  shows "code_unit_chars (((0 * 16 + 0) * 16 + (of_char c div 16) mod 16) * 16 + of_char c mod 16) = [c]"
  using assms small_arith [OF assms] by (simp add: code_unit_chars_def)

lemma append_single: "(@) [c] = (#) c"
  by (rule ext) simp

lemma parse_string_step:
  "parse_string (quote_char c @ tail) = map_option (apfst ((#) c)) (parse_string tail)"
  using quote_char_cases [of c]
proof (elim disjE exE conjE)
  assume q: "quote_char c = [c]" and n: "c \<noteq> CHR 0x22" "c \<noteq> CHR 0x5C" "\<not> (of_char c :: nat) < 32"
  show ?thesis
    unfolding q using n by simp
next
  fix e
  assume q: "quote_char c = [CHR 0x5C, e]" and n: "e \<noteq> CHR ''u''" "unescape e = Some c"
  show ?thesis
    unfolding q using n by simp
next
  assume q: "quote_char c = [CHR 0x5C, CHR ''u'', CHR ''0'', CHR ''0'', hex_char (of_char c div 16), hex_char (of_char c)]"
    and n: "(of_char c :: nat) < 32"
  show ?thesis
    unfolding q using code_unit_small [OF n]
    by (simp add: hex_val_0 hex_val_hex_char append_single)
qed

lemma parse_string_quote:
  "parse_string (concat (map quote_char s) @ CHR 0x22 # rest) = Some (s, rest)"
proof (induction s)
  case Nil
  show ?case by simp
next
  case (Cons c s)
  have "parse_string (concat (map quote_char (c # s)) @ CHR 0x22 # rest)
      = parse_string (quote_char c @ (concat (map quote_char s) @ CHR 0x22 # rest))"
    by (simp del: quote_char.simps parse_string.simps)
  also have "\<dots> = Some (c # s, rest)"
    unfolding parse_string_step Cons.IH by simp
  finally show ?case .
qed

lemma skip_ws_Cons: "\<not> is_ws c \<Longrightarrow> skip_ws (c # cs) = c # cs"
  by (simp add: skip_ws_def)

lemma not_ws: "\<not> is_ws (CHR 0x22)" "\<not> is_ws CHR '':''" "\<not> is_ws CHR '',''"
  "\<not> is_ws CHR ''{''" "\<not> is_ws CHR ''}''"
  by (simp_all add: is_ws_def)

lemma parse_value_string:
  "parse_value (Suc n) (quote s @ rest) = Some (String s, rest)"
  by (simp add: quote_def skip_ws_Cons not_ws parse_string_quote del: parse_string.simps)

lemma parse_members_last:
  "parse_members (Suc (Suc n)) (quote k @ CHR '':'' # quote s @ CHR ''}'' # rest)
     = Some ([(k, String s)], rest)"
proof -
  have 1: "parse_string (concat (map quote_char k) @ CHR 0x22 # CHR '':'' # quote s @ CHR ''}'' # rest)
      = Some (k, CHR '':'' # quote s @ CHR ''}'' # rest)"
    by (rule parse_string_quote)
  show ?thesis
    using 1 parse_value_string [of n s "CHR ''}'' # rest"]
    by (simp add: quote_def [of k] skip_ws_Cons not_ws del: parse_string.simps parse_value.simps)
qed

lemma parse_members_two:
  "parse_members (Suc (Suc (Suc n)))
     (quote k1 @ CHR '':'' # quote s1 @ CHR '','' # quote k2 @ CHR '':'' # quote s2 @ CHR ''}'' # rest)
     = Some ([(k1, String s1), (k2, String s2)], rest)"
proof -
  let ?tail = "quote k2 @ CHR '':'' # quote s2 @ CHR ''}'' # rest"
  have 1: "parse_string (concat (map quote_char k1) @ CHR 0x22 # CHR '':'' # quote s1 @ CHR '','' # ?tail)
      = Some (k1, CHR '':'' # quote s1 @ CHR '','' # ?tail)"
    by (rule parse_string_quote)
  show ?thesis
    using 1 parse_value_string [of "Suc n" s1 "CHR '','' # ?tail"]
      parse_members_last [of n k2 s2 rest]
    by (subst parse_members.simps(2))
       (simp add: quote_def [of k1] skip_ws_Cons not_ws
        del: parse_string.simps parse_value.simps parse_members.simps(2))
qed

lemma quote_Cons: "\<exists>cs. quote s = CHR 0x22 # cs"
  by (simp add: quote_def)

lemma parse_value_object_two:
  "parse_value (Suc (Suc (Suc (Suc n))))
     (CHR ''{'' # quote k1 @ CHR '':'' # quote s1 @ CHR '','' # quote k2 @ CHR '':'' # quote s2 @ ''}'')
     = Some (Object [(k1, String s1), (k2, String s2)], [])"
proof -
  obtain cs where cs: "quote k1 = CHR 0x22 # cs"
    using quote_Cons by blast
  have open_q: "skip_ws (quote k1 @ tl) = CHR 0x22 # cs @ tl" for tl
    by (simp add: cs skip_ws_Cons not_ws)
  show ?thesis
    using parse_members_two [of n k1 s1 k2 s2 "[]"]
    by (subst parse_value.simps(2))
       (simp add: skip_ws_Cons not_ws open_q
        del: parse_string.simps parse_value.simps parse_members.simps(2))
qed

lemma JSON_stringify_cursor_object:
  "JSON_stringify (Object [(k1, Date t), (k2, String i)]) =
     CHR ''{'' # quote k1 @ CHR '':'' # quote (toISOString t) @ CHR '','' #
       quote k2 @ CHR '':'' # quote i @ ''}''"
  by simp

lemma JSON_parse_cursor_object:
  "JSON_parse (JSON_stringify (Object [(k1, Date t), (k2, String i)]))
     = Some (Object [(k1, String (toISOString t)), (k2, String i)])"
proof -
  let ?s = "CHR ''{'' # quote k1 @ CHR '':'' # quote (toISOString t) @ CHR '','' #
       quote k2 @ CHR '':'' # quote i @ ''}''"
  have "\<exists>n. Suc (length ?s) = Suc (Suc (Suc (Suc n)))"
    by (simp add: quote_def)
  then obtain n where n: "Suc (length ?s) = Suc (Suc (Suc (Suc n)))" ..
  show ?thesis
    unfolding JSON_parse_def JSON_stringify_cursor_object n
    by (simp only: parse_value_object_two) (simp add: skip_ws_def)
qed



subsection \<open>The examples, evaluated\<close>

lemma example_args_first:
  "upVotersArgumentsSchema env1
     \<lparr>arg_cursor = Some ''eyJjcmVhdGVkQXQiOiIyMDI0LTAxLTAxVDAwOjAwOjAwLjAwMFoiLCJjcmVhdG9ySWQiOiJ1MSJ9'',
      arg_isInversed = True, arg_limit = 2\<rparr> =
    Inr \<lparr>cursor = Some \<lparr>cursor_createdAt = 1704067200000, cursor_creatorId = ''u1''\<rparr>,
      isInversed = True, limit = 2\<rparr>"
  by code_simp

lemma example_args_last:
  "upVotersArgumentsSchema env1
     \<lparr>arg_cursor = Some ''eyJjcmVhdGVkQXQiOiIyMDI0LTAxLTAxVDAwOjAzOjAwLjAwMFoiLCJjcmVhdG9ySWQiOiJ1NCJ9'',
      arg_isInversed = True, arg_limit = 2\<rparr> =
    Inr \<lparr>cursor = Some \<lparr>cursor_createdAt = 1704067380000, cursor_creatorId = ''u4''\<rparr>,
      isInversed = True, limit = 2\<rparr>"
  by code_simp

lemma example_votes_first:
  "upVoters_commentVotes (drizzleClient ctx1) ''c1''
     \<lparr>cursor = Some \<lparr>cursor_createdAt = 1704067200000, cursor_creatorId = ''u1''\<rparr>,
      isInversed = True, limit = 2\<rparr> =
   [\<lparr>createdAt = 1704067260000, creatorId = None, creator = None\<rparr>,
    \<lparr>createdAt = 1704067320000, creatorId = Some ''u2'',
      creator = Some \<lparr>user_id = ''u2'', user_role = ''regular''\<rparr>\<rparr>]"
  by code_simp

lemma example_votes_last:
  "upVoters_commentVotes (drizzleClient ctx1) ''c1''
     \<lparr>cursor = Some \<lparr>cursor_createdAt = 1704067380000, cursor_creatorId = ''u4''\<rparr>,
      isInversed = True, limit = 2\<rparr> = []"
  by code_simp

lemma example_votes_forward:
  "upVoters_commentVotes (drizzleClient ctx1) ''c1''
     \<lparr>cursor = Some \<lparr>cursor_createdAt = 1704067380000, cursor_creatorId = ''u4''\<rparr>,
      isInversed = False, limit = 10\<rparr> =
   [\<lparr>createdAt = 1704067380000, creatorId = Some ''u3'',
      creator = Some \<lparr>user_id = ''u3'', user_role = ''regular''\<rparr>\<rparr>,
    \<lparr>createdAt = 1704067320000, creatorId = Some ''u2'',
      creator = Some \<lparr>user_id = ''u2'', user_role = ''regular''\<rparr>\<rparr>,
    \<lparr>createdAt = 1704067260000, creatorId = None, creator = None\<rparr>,
    \<lparr>createdAt = 1704067200000, creatorId = Some ''u1'',
      creator = Some \<lparr>user_id = ''u1'', user_role = ''regular''\<rparr>\<rparr>]"
  by code_simp


lemma example_cursor_u2:
  "createCursor (\<lparr>createdAt = 1704067320000, creatorId = Some ''u2'', creator = c\<rparr>, u) =
   ''eyJjcmVhdGVkQXQiOiIyMDI0LTAxLTAxVDAwOjAyOjAwLjAwMFoiLCJjcmVhdG9ySWQiOiJ1MiJ9''"
  unfolding createCursor_def fst_conv commentVote.simps option.case by code_simp




lemma example_matching:
  "length (filter (\<lambda>r. eval_sql (commentVotesTable (drizzleClient ctx1))
             (upVoters_where (Some \<lparr>cursor_createdAt = 1704067200000, cursor_creatorId = ''u1''\<rparr>)
                True ''c1'') r = TT
           \<and> creator (with_creator (drizzleClient ctx1) r) \<noteq> None)
        (commentVotesTable (drizzleClient ctx1))) = 3"
  by code_simp

section \<open>Cursors through the resolver\<close>






text \<open>
  The first hypothesis matters: \<open>JSON.stringify\<close> writes the timestamp as a string, so
  a \<open>createdAt\<close> validator that accepts a \<open>Date\<close> object only rejects every cursor
  \<open>createCursor\<close> makes.
\<close>

lemma decode_createCursor_date_only:
  assumes "creatorId (fst vote) = Some i"
  shows "decode_cursor date_schema Y (createCursor vote) = None"
proof -
  have "string_of (base64url_decode (createCursor vote)) =
      JSON_stringify (Object [(''createdAt'', Date (createdAt (fst vote))), (''creatorId'', String i)])"
    unfolding createCursor_def assms by (simp only: base64url_roundtrip option.case)
  then show ?thesis
    unfolding decode_cursor_def
    by (simp only: JSON_parse_cursor_object)
       (simp add: cursorSchema_parse_def object_get_def date_schema_def)
qed




text \<open>
  Claim C10.  The filter built without a cursor has the condition
  \<open>ne(creatorId, null)\<close>; the filter built with a cursor does not.  With a cursor, a vote
  of the parent comment with a null \<open>creatorId\<close> beyond the cursor is selected, and its
  \<open>creator\<close> is null.  The limit applies to the selected rows, before \<open>rawNodes\<close> drops
  the votes without creator.  In the example database the page of limit 2 after the
  first vote has one node, while three selected votes have a creator.
\<close>

theorem upVoters_cursor_filter_keeps_null_creators:
  "Ne col_creatorId SqlNull \<in> set (conjuncts (upVoters_where None inversed p))
   \<and> Ne col_creatorId SqlNull \<notin> set (conjuncts (upVoters_where (Some c) inversed p))
   \<and> ((\<exists>r' \<in> set tbl. vote_createdAt r' = cursor_createdAt c
            \<and> vote_creatorId r' = Some (cursor_creatorId c)
            \<and> vote_commentId r' = p \<and> vote_type r' = ''up_vote'')
        \<and> vote_commentId r = p \<and> vote_type r = ''up_vote'' \<and> vote_creatorId r = None
        \<and> (if inversed then cursor_createdAt c < vote_createdAt r
            else vote_createdAt r < cursor_createdAt c)
       \<longrightarrow> eval_sql tbl (upVoters_where (Some c) inversed p) r = TT
           \<and> creator (with_creator db r) = None)
   \<and> upVoters_commentVotes db p parsed =
       map (with_creator db)
         (take (limit parsed)
            (order_rows (upVoters_orderBy (isInversed parsed))
               (filter (\<lambda>r. eval_sql (commentVotesTable db)
                          (upVoters_where (cursor parsed) (isInversed parsed) p) r = TT)
                  (commentVotesTable db))))
   \<and> length (rawNodes (upVoters_commentVotes (drizzleClient ctx1) ''c1''
          \<lparr>cursor = Some \<lparr>cursor_createdAt = 1704067200000, cursor_creatorId = ''u1''\<rparr>,
           isInversed = True, limit = 2\<rparr>)) = 1
   \<and> length (filter (\<lambda>r. eval_sql (commentVotesTable (drizzleClient ctx1))
             (upVoters_where (Some \<lparr>cursor_createdAt = 1704067200000, cursor_creatorId = ''u1''\<rparr>)
                True ''c1'') r = TT
           \<and> creator (with_creator (drizzleClient ctx1) r) \<noteq> None)
        (commentVotesTable (drizzleClient ctx1))) = 3"
proof -
  have 1: "Ne col_creatorId SqlNull \<in> set (conjuncts (upVoters_where None inversed p))"
    by (simp add: upVoters_where_def)
  have 2: "Ne col_creatorId SqlNull \<notin> set (conjuncts (upVoters_where (Some c) inversed p))"
    by (simp add: upVoters_where_def)
  have 3: "eval_sql tbl (upVoters_where (Some c) inversed p) r = TT
           \<and> creator (with_creator db r) = None"
    if "\<exists>r' \<in> set tbl. vote_createdAt r' = cursor_createdAt c
            \<and> vote_creatorId r' = Some (cursor_creatorId c)
            \<and> vote_commentId r' = p \<and> vote_type r' = ''up_vote''"
      and "vote_commentId r = p" "vote_type r = ''up_vote''" "vote_creatorId r = None"
      and "if inversed then cursor_createdAt c < vote_createdAt r
            else vote_createdAt r < cursor_createdAt c"
    using that where_cursor_inversed [of tbl c p r] where_cursor_forward [of tbl c p r]
    by (cases inversed) (auto simp: with_creator_def)
  have 4: "length (rawNodes (upVoters_commentVotes (drizzleClient ctx1) ''c1''
          \<lparr>cursor = Some \<lparr>cursor_createdAt = 1704067200000, cursor_creatorId = ''u1''\<rparr>,
           isInversed = True, limit = 2\<rparr>)) = 1"
    by (simp add: example_votes_first rawNodes_Cons rawNodes_Nil)
  show ?thesis
    using 1 2 3 4 example_matching
    by (simp add: upVoters_commentVotes_def findMany_def)
qed

theorem upVoters_cursor_filter_keeps_null_creators_witness:
  "eval_sql (commentVotesTable (drizzleClient ctx1))
     (upVoters_where (Some \<lparr>cursor_createdAt = 1704067200000, cursor_creatorId = ''u1''\<rparr>)
        True ''c1'')
     \<lparr>vote_commentId = ''c1'', vote_createdAt = 1704067260000,
       vote_creatorId = None, vote_type = ''up_vote''\<rparr> = TT"
proof -
  have "\<exists>r' \<in> set (commentVotesTable (drizzleClient ctx1)).
          vote_createdAt r' = 1704067200000 \<and> vote_creatorId r' = Some ''u1''
          \<and> vote_commentId r' = ''c1'' \<and> vote_type r' = ''up_vote''"
    by (simp add: ctx1_def)
  then show ?thesis
    using upVoters_cursor_filter_keeps_null_creators [of True "''c1''"
      "\<lparr>cursor_createdAt = 1704067200000, cursor_creatorId = ''u1''\<rparr>"
      "commentVotesTable (drizzleClient ctx1)"
      "\<lparr>vote_commentId = ''c1'', vote_createdAt = 1704067260000,
       vote_creatorId = None, vote_type = ''up_vote''\<rparr>"
      "drizzleClient ctx1"
      "\<lparr>cursor = None, isInversed = True, limit = 2\<rparr>",
      THEN conjunct2, THEN conjunct2, THEN conjunct1]
    by simp
qed

subsection \<open>The properties at the example database\<close>

theorem upVoters_where_cursor_witness:
  "eval_sql (commentVotesTable (drizzleClient ctx1))
     (upVoters_where (Some \<lparr>cursor_createdAt = 1704067380000, cursor_creatorId = ''u3''\<rparr>)
        True ''c1'')
     \<lparr>vote_commentId = ''c1'', vote_createdAt = 1704067380000,
       vote_creatorId = Some ''u4'', vote_type = ''up_vote''\<rparr> = TT"
  by (rule upVoters_where_cursor [THEN conjunct2, THEN iffD2]) (simp add: ctx1_def)

theorem upVoters_not_found_iff_witness:
  "(\<exists>issues msg. upVoters_resolve env1 ''c1''
       \<lparr>arg_cursor = Some ''eyJjcmVhdGVkQXQiOiIyMDI0LTAxLTAxVDAwOjAzOjAwLjAwMFoiLCJjcmVhdG9ySWQiOiJ1NCJ9'',
        arg_isInversed = True, arg_limit = 2\<rparr> ctx1 =
        Inl \<lparr>extensions = arguments_associated_resources_not_found issues, message = msg\<rparr>)
   \<and> upVoters_resolve env1 ''c9''
       \<lparr>arg_cursor = None, arg_isInversed = False, arg_limit = 2\<rparr> ctx1 = Inr []"
proof -
  have "upVotersArgumentsSchema env1 \<lparr>arg_cursor = None, arg_isInversed = False, arg_limit = 2\<rparr>
      = Inr \<lparr>cursor = None, isInversed = False, limit = 2\<rparr>"
    by (simp add: upVotersArgumentsSchema_def env1_def)
  then have "upVoters_resolve env1 ''c9''
       \<lparr>arg_cursor = None, arg_isInversed = False, arg_limit = 2\<rparr> ctx1 = Inr []"
    using upVoters_not_found_iff [of env1 "''c9''"
        "\<lparr>arg_cursor = None, arg_isInversed = False, arg_limit = 2\<rparr>" ctx1]
    by (simp add: ctx1_def env1_def)
  then show ?thesis
    using upVoters_not_found_iff [of env1 "''c1''"
        "\<lparr>arg_cursor = Some ''eyJjcmVhdGVkQXQiOiIyMDI0LTAxLTAxVDAwOjAzOjAwLjAwMFoiLCJjcmVhdG9ySWQiOiJ1NCJ9'',
          arg_isInversed = True, arg_limit = 2\<rparr>" ctx1]
      example_args_last example_votes_last
    by simp
qed

theorem upVoters_fetch_order_witness:
  "sorted_wrt descending
     [\<lparr>createdAt = 1704067380000, creatorId = Some ''u3'',
        creator = Some \<lparr>user_id = ''u3'', user_role = ''regular''\<rparr>\<rparr>,
      \<lparr>createdAt = 1704067320000, creatorId = Some ''u2'',
        creator = Some \<lparr>user_id = ''u2'', user_role = ''regular''\<rparr>\<rparr>,
      \<lparr>createdAt = 1704067260000, creatorId = None, creator = None\<rparr>,
      \<lparr>createdAt = 1704067200000, creatorId = Some ''u1'',
        creator = Some \<lparr>user_id = ''u1'', user_role = ''regular''\<rparr>\<rparr>]"
  using upVoters_fetch_order [of False
      "\<lparr>cursor = Some \<lparr>cursor_createdAt = 1704067380000, cursor_creatorId = ''u4''\<rparr>,
        isInversed = False, limit = 10\<rparr>" "drizzleClient ctx1" "''c1''"]
  unfolding example_votes_forward
  by simp

theorem upVoters_dangling_dropped_witness:
  "upVoters_resolve env1 ''c1''
     \<lparr>arg_cursor = Some ''eyJjcmVhdGVkQXQiOiIyMDI0LTAxLTAxVDAwOjAwOjAwLjAwMFoiLCJjcmVhdG9ySWQiOiJ1MSJ9'',
      arg_isInversed = True, arg_limit = 2\<rparr> ctx1 =
   Inr [(''eyJjcmVhdGVkQXQiOiIyMDI0LTAxLTAxVDAwOjAyOjAwLjAwMFoiLCJjcmVhdG9ySWQiOiJ1MiJ9'',
       \<lparr>user_id = ''u2'', user_role = ''regular''\<rparr>)]"
  using upVoters_dangling_dropped [OF example_args_first, of ctx1 "''c1''"]
  by (simp add: example_votes_first rawNodes_Cons rawNodes_Nil example_cursor_u2 createNode_def
      env1_def)

end
